theory Spec2Isabelle
  imports Main "HOL-Library.Word" "HOL-Library.Sublist" "HOL-Library.AList"
begin

section \<open>JavaScript strings\<close>

text \<open>
  A JavaScript string is a sequence of UTF-16 code units; \<open>length\<close>, \<open>substring\<close>,
  \<open>replace\<close> and \<open>trim\<close> all work on code units. \<open>js\<close> embeds an ASCII literal.
\<close>

type_synonym jschar = "16 word"
type_synonym jsstring = "jschar list"

definition js :: "string \<Rightarrow> jsstring" where
  "js s = map (\<lambda>c. of_nat (of_char c)) s"

definition dot :: jschar where "dot = 0x2E"
definition dash :: jschar where "dash = 0x2D"
definition slash :: jschar where "slash = 0x2F"
definition backslash :: jschar where "backslash = 0x5C"

text \<open>The character class \<^verbatim>\<open>[\/\\?%*:|"<>]\<close> of the first \<open>replace\<close> in \<open>sanitizeFilename\<close>.\<close>

definition hostile :: "jschar \<Rightarrow> bool" where
  "hostile c = (c = slash \<or> c = backslash \<or> c = 0x3F \<or> c = 0x25 \<or> c = 0x2A
                \<or> c = 0x3A \<or> c = 0x7C \<or> c = 0x22 \<or> c = 0x3C \<or> c = 0x3E)"

text \<open>
  \<open>String.prototype.trim\<close> strips ECMAScript WhiteSpace and LineTerminator code units:
  TAB, LF, VT, FF, CR, SP, NBSP, U+1680, U+2000..U+200A, U+2028, U+2029, U+202F, U+205F,
  U+3000 and U+FEFF.
\<close>

definition js_whitespace :: "jschar \<Rightarrow> bool" where
  "js_whitespace c = ((0x09 \<le> c \<and> c \<le> 0x0D) \<or> c = 0x20 \<or> c = 0xA0 \<or> c = 0x1680
                      \<or> (0x2000 \<le> c \<and> c \<le> 0x200A) \<or> c = 0x2028 \<or> c = 0x2029
                      \<or> c = 0x202F \<or> c = 0x205F \<or> c = 0x3000 \<or> c = 0xFEFF)"

definition trim :: "jsstring \<Rightarrow> jsstring" where
  "trim s = rev (dropWhile js_whitespace (rev (dropWhile js_whitespace s)))"

text \<open>\<^verbatim>\<open>s.replace(/[\/\\?%*:|"<>]/g, '-')\<close>: every code unit of the class becomes a dash.\<close>

definition replace_hostile :: "jsstring \<Rightarrow> jsstring" where
  "replace_hostile s = map (\<lambda>c. if hostile c then dash else c) s"

text \<open>
  \<^verbatim>\<open>s.replace(/\.\./g, '-')\<close>: a global replace scans left to right and resumes
  after each match, so the matches do not overlap.
\<close>

fun replace_dotdot :: "jsstring \<Rightarrow> jsstring" where
  "replace_dotdot (a # b # rest) =
     (if a = dot \<and> b = dot then dash # replace_dotdot rest
      else a # replace_dotdot (b # rest))"
| "replace_dotdot s = s"

text \<open>\<^verbatim>\<open>s.substring(0, n)\<close>.\<close>

definition substring0 :: "nat \<Rightarrow> jsstring \<Rightarrow> jsstring" where
  "substring0 n s = take n s"

section \<open>\<open>sanitizeFilename\<close> (server.js)\<close>

text \<open>
  The argument is a metadata value: \<open>None\<close> stands for \<open>undefined\<close> or \<open>null\<close>.
  \<^verbatim>\<open>!filename\<close> holds for those and for the empty string.
\<close>

definition sanitizeFilename :: "jsstring option \<Rightarrow> jsstring" where
  "sanitizeFilename filename =
     (case filename of
        None \<Rightarrow> js ''unnamed_file''
      | Some f \<Rightarrow>
          if f = [] then js ''unnamed_file''
          else substring0 255 (trim (replace_dotdot (replace_hostile f))))"

section \<open>Node's \<open>path.posix.extname\<close> and \<open>path.posix.basename\<close>\<close>

text \<open>
  Both library functions scan the path from its last code unit to its first. The record
  holds the local variables of the two scans (\<open>start\<close> is \<open>startPart\<close> in \<open>extname\<close>);
  \<open>-1\<close> is "not set", as in the library.
  The loop index \<open>i\<close> of the library runs from \<open>length path - 1\<close> down to \<open>0\<close>; the
  recursion below is on \<open>i + 1\<close>, and a \<open>break\<close> is a return without a recursive call.
\<close>

record scan =
  start :: nat
  endIdx :: int
  matchedSlash :: bool
  startDot :: int
  preDotState :: int
  extIdx :: int
  firstNonSlashEnd :: int

definition scan0 :: scan where
  "scan0 = \<lparr>start = 0, endIdx = -1, matchedSlash = True, startDot = -1, preDotState = 0,
            extIdx = -1, firstNonSlashEnd = -1\<rparr>"

text \<open>\<^verbatim>\<open>path.slice(a, b)\<close> for \<open>0 \<le> a\<close>, \<open>0 \<le> b\<close>.\<close>

definition string_slice :: "jsstring \<Rightarrow> nat \<Rightarrow> nat \<Rightarrow> jsstring" where
  "string_slice s a b = take (b - a) (drop a s)"

fun extname_loop :: "jsstring \<Rightarrow> nat \<Rightarrow> scan \<Rightarrow> scan" where
  "extname_loop path 0 st = st"
| "extname_loop path (Suc i) st =
     (let code = path ! i in
      if code = slash then
        (if \<not> matchedSlash st then st\<lparr>start := i + 1\<rparr>
         else extname_loop path i st)
      else
        (let st1 = (if endIdx st = -1 then st\<lparr>matchedSlash := False, endIdx := int i + 1\<rparr>
                    else st);
             st2 = (if code = dot then
                      (if startDot st1 = -1 then st1\<lparr>startDot := int i\<rparr>
                       else if preDotState st1 \<noteq> 1 then st1\<lparr>preDotState := 1\<rparr>
                       else st1)
                    else if startDot st1 \<noteq> -1 then st1\<lparr>preDotState := -1\<rparr>
                    else st1)
         in extname_loop path i st2))"

definition extname :: "jsstring \<Rightarrow> jsstring" where
  "extname path =
     (let st = extname_loop path (length path) scan0 in
      if startDot st = -1 \<or> endIdx st = -1 \<or> preDotState st = 0
         \<or> (preDotState st = 1 \<and> startDot st = endIdx st - 1
             \<and> startDot st = int (start st) + 1)
      then []
      else string_slice path (nat (startDot st)) (nat (endIdx st)))"

text \<open>The scan of \<open>basename\<close> when a non-empty suffix \<open>sfx\<close> no longer than the path is given.\<close>

fun basename_suffix_loop :: "jsstring \<Rightarrow> jsstring \<Rightarrow> nat \<Rightarrow> scan \<Rightarrow> scan" where
  "basename_suffix_loop path sfx 0 st = st"
| "basename_suffix_loop path sfx (Suc i) st =
     (let code = path ! i in
      if code = slash then
        (if \<not> matchedSlash st then st\<lparr>start := i + 1\<rparr>
         else basename_suffix_loop path sfx i st)
      else
        (let st1 = (if firstNonSlashEnd st = -1
                    then st\<lparr>matchedSlash := False, firstNonSlashEnd := int i + 1\<rparr>
                    else st);
             st2 = (if extIdx st1 \<ge> 0 then
                      (if code = sfx ! nat (extIdx st1) then
                         (if extIdx st1 - 1 = -1
                          then st1\<lparr>extIdx := extIdx st1 - 1, endIdx := int i\<rparr>
                          else st1\<lparr>extIdx := extIdx st1 - 1\<rparr>)
                       else st1\<lparr>extIdx := -1, endIdx := firstNonSlashEnd st1\<rparr>)
                    else st1)
         in basename_suffix_loop path sfx i st2))"

text \<open>The scan of \<open>basename\<close> without a usable suffix.\<close>

fun basename_loop :: "jsstring \<Rightarrow> nat \<Rightarrow> scan \<Rightarrow> scan" where
  "basename_loop path 0 st = st"
| "basename_loop path (Suc i) st =
     (if path ! i = slash then
        (if \<not> matchedSlash st then st\<lparr>start := i + 1\<rparr>
         else basename_loop path i st)
      else if endIdx st = -1
        then basename_loop path i (st\<lparr>matchedSlash := False, endIdx := int i + 1\<rparr>)
      else basename_loop path i st)"

definition basename :: "jsstring \<Rightarrow> jsstring \<Rightarrow> jsstring" where
  "basename path sfx =
     (if sfx \<noteq> [] \<and> length sfx \<le> length path then
        (if sfx = path then []
         else
           (let st = basename_suffix_loop path sfx (length path)
                       (scan0\<lparr>extIdx := int (length sfx) - 1\<rparr>);
                e = (if int (start st) = endIdx st then firstNonSlashEnd st
                     else if endIdx st = -1 then int (length path)
                     else endIdx st)
            in string_slice path (start st) (nat e)))
      else
        (let st = basename_loop path (length path) scan0 in
         if endIdx st = -1 then [] else string_slice path (start st) (nat (endIdx st))))"

section \<open>The upload directory\<close>

text \<open>
  The state of the file system that the programs touch is the content of the upload
  directory: an association list from entry name to node, in the order \<open>readdir\<close>
  reports. \<^verbatim>\<open>path.join(config.uploadDir, name)\<close> denotes the entry \<open>name\<close>; upload
  identifiers are generated by the tus library and are single path segments.
  Time stamps are whole milliseconds. A dangling symbolic link is an entry that can be
  renamed and unlinked but not \<open>stat\<close>ed. An operation fails when the content of the
  directory makes it fail (\<open>ENOENT\<close>, \<open>EISDIR\<close>, \<open>ENOTDIR\<close>, \<open>ENOTEMPTY\<close>) or when the
  name is one that no entry can have (\<open>ERR_INVALID_ARG_VALUE\<close>, \<open>ENAMETOOLONG\<close>);
  permissions and device errors are not part of this state.
\<close>

datatype node = File int nat | Directory bool | Dangling

type_synonym directory = "(jsstring \<times> node) list"

datatype errno =
  ENOENT | EISDIR | ENOTDIR | ENOTEMPTY | ENAMETOOLONG | ERR_INVALID_ARG_VALUE

text \<open>
  Node hands a path to the operating system in UTF-8: a code unit below \<open>0x80\<close> is one
  byte, one below \<open>0x800\<close> two, any other three (a lone surrogate is written as
  U+FFFD), and a high surrogate followed by a low one is four bytes together.
\<close>

definition unit_bytes :: "jschar \<Rightarrow> nat" where
  "unit_bytes c = (if c < 0x80 then 1 else if c < 0x800 then 2 else 3)"

definition surrogate_pair :: "jschar \<Rightarrow> jschar \<Rightarrow> bool" where
  "surrogate_pair a b = (0xD800 \<le> a \<and> a \<le> 0xDBFF \<and> 0xDC00 \<le> b \<and> b \<le> 0xDFFF)"

fun utf8_length :: "jsstring \<Rightarrow> nat" where
  "utf8_length (a # b # rest) =
     (if surrogate_pair a b then 4 + utf8_length rest
      else unit_bytes a + utf8_length (b # rest))"
| "utf8_length [a] = unit_bytes a"
| "utf8_length [] = 0"

text \<open>The longest name of a directory entry, in bytes, on the file systems of Linux.\<close>

definition NAME_MAX :: nat where "NAME_MAX = 255"

text \<open>
  Why a name cannot be that of an entry, if it cannot: Node's \<open>fs\<close> functions throw
  \<open>ERR_INVALID_ARG_VALUE\<close> for a path with a null byte before they call the operating
  system, which answers \<open>ENAMETOOLONG\<close> for a name of more than \<open>NAME_MAX\<close> bytes.
\<close>

definition name_error :: "jsstring \<Rightarrow> errno option" where
  "name_error p =
     (if 0 \<in> set p then Some ERR_INVALID_ARG_VALUE
      else if utf8_length p > NAME_MAX then Some ENAMETOOLONG
      else None)"

definition valid_name :: "jsstring \<Rightarrow> bool" where
  "valid_name p = (name_error p = None)"

text \<open>The error for a name that has no entry.\<close>

definition absent :: "jsstring \<Rightarrow> errno" where
  "absent p = (case name_error p of Some e \<Rightarrow> e | None \<Rightarrow> ENOENT)"

definition stat :: "directory \<Rightarrow> jsstring \<Rightarrow> errno + node" where
  "stat d p =
     (case map_of d p of
        None \<Rightarrow> Inl (absent p)
      | Some Dangling \<Rightarrow> Inl ENOENT
      | Some n \<Rightarrow> Inr n)"

definition unlink :: "directory \<Rightarrow> jsstring \<Rightarrow> errno + directory" where
  "unlink d p =
     (case map_of d p of
        None \<Rightarrow> Inl (absent p)
      | Some (Directory _) \<Rightarrow> Inl EISDIR
      | Some _ \<Rightarrow> Inr (AList.delete p d))"

text \<open>
  \<open>rename\<close> gives the entry \<open>old\<close> the name \<open>new\<close>. It fails when \<open>new\<close> has a null byte,
  when \<open>old\<close> has no entry, and when \<open>new\<close> is longer than \<open>NAME_MAX\<close> bytes. It replaces
  an existing target, except that a directory is replaced only by a directory and only
  when it is empty (the flag of \<open>Directory\<close>).
\<close>

definition rename :: "directory \<Rightarrow> jsstring \<Rightarrow> jsstring \<Rightarrow> errno + directory" where
  "rename d old new =
     (if 0 \<in> set new then Inl ERR_INVALID_ARG_VALUE
      else
        (case map_of d old of
           None \<Rightarrow> Inl (absent old)
         | Some n \<Rightarrow>
             if old = new then Inr d
             else if utf8_length new > NAME_MAX then Inl ENAMETOOLONG
             else
               (case (n, map_of d new) of
                  (Directory _, Some (Directory vacant)) \<Rightarrow>
                     if vacant then Inr (AList.update new n (AList.delete old d))
                     else Inl ENOTEMPTY
                | (Directory _, Some _) \<Rightarrow> Inl ENOTDIR
                | (_, Some (Directory _)) \<Rightarrow> Inl EISDIR
                | _ \<Rightarrow> Inr (AList.update new n (AList.delete old d)))))"

text \<open>\<^verbatim>\<open>fsPromises.unlink(p).catch(() => {})\<close>: a failure leaves the directory as it is.\<close>

definition unlink_quiet :: "directory \<Rightarrow> jsstring \<Rightarrow> directory" where
  "unlink_quiet d p = (case unlink d p of Inl _ \<Rightarrow> d | Inr d' \<Rightarrow> d')"

definition is_directory :: "directory \<Rightarrow> jsstring \<Rightarrow> bool" where
  "is_directory d p = (case map_of d p of Some (Directory _) \<Rightarrow> True | _ \<Rightarrow> False)"

section \<open>Configuration and state of the server (server.js)\<close>

record config =
  uploadDir :: jsstring
  maxFileSize :: int
  minFreeSpace :: int
  chunkSize :: int
  allowedExtensions :: "jsstring list option"
  uploadTimeout :: int

text \<open>\<^verbatim>\<open>s.split(',')\<close>.\<close>

fun split_on :: "jschar \<Rightarrow> jsstring \<Rightarrow> jsstring list" where
  "split_on sep [] = [[]]"
| "split_on sep (c # cs) =
     (if c = sep then [] # split_on sep cs
      else (case split_on sep cs of
              w # ws \<Rightarrow> (c # w) # ws
            | [] \<Rightarrow> [[c]]))"

text \<open>
  \<^verbatim>\<open>process.env.ALLOWED_EXTENSIONS === '*' ? null
    : process.env.ALLOWED_EXTENSIONS?.split(',').filter(Boolean) || null\<close>;
  the argument is the environment variable, \<open>None\<close> when unset. An array is truthy
  even when empty.
\<close>

definition parseAllowedExtensions :: "jsstring option \<Rightarrow> jsstring list option" where
  "parseAllowedExtensions v =
     (case v of
        None \<Rightarrow> None
      | Some s \<Rightarrow> if s = js ''*'' then None
                  else Some (filter (\<lambda>w. w \<noteq> []) (split_on 0x2C s)))"

text \<open>The entries that the server writes with \<open>logger\<close>, with their arguments.\<close>

datatype log_entry =
    DiskSpace int
  | LowDiskSpace int
  | DiskCheckError
  | UploadFinished jsstring
  | UploadSize node
  | FileRenamed jsstring
  | RenameError jsstring errno
  | CleanedUp jsstring
  | CleanupError jsstring errno
  | TusHandlerError jsstring

record disk_space =
  free :: int
  total :: int

text \<open>
  \<open>dir\<close> is the content of \<open>config.uploadDir\<close>, \<open>disk\<close> what \<open>checkDiskSpace\<close> reports
  (\<open>None\<close> when the probe throws), \<open>limiter\<close> the store of the rate limiter.
\<close>

record 's world =
  dir :: directory
  logs :: "log_entry list"
  disk :: "disk_space option"
  limiter :: 's

definition logger :: "log_entry \<Rightarrow> 's world \<Rightarrow> 's world" where
  "logger e w = w\<lparr>logs := logs w @ [e]\<rparr>"

subsection \<open>\<open>checkAvailableSpace\<close>\<close>

definition checkAvailableSpace :: "config \<Rightarrow> 's world \<Rightarrow> bool \<times> 's world" where
  "checkAvailableSpace cfg w =
     (case disk w of
        None \<Rightarrow> (False, logger DiskCheckError w)
      | Some diskSpace \<Rightarrow>
          (let freeSpace = free diskSpace;
               w1 = logger (DiskSpace freeSpace) w
           in if freeSpace < minFreeSpace cfg
              then (False, logger (LowDiskSpace freeSpace) w1)
              else (True, w1)))"

subsection \<open>The health check\<close>

text \<open>The status that \<^verbatim>\<open>GET /health\<close> answers with; 503 as well when the probe throws.\<close>

definition health :: "config \<Rightarrow> 's world \<Rightarrow> nat" where
  "health cfg w =
     (case disk w of
        None \<Rightarrow> 503
      | Some diskSpace \<Rightarrow>
          (let hasSpace = (free diskSpace \<ge> minFreeSpace cfg)
           in if hasSpace then 200 else 503))"

subsection \<open>\<open>cleanupUpload\<close>\<close>

text \<open>
  The two unlinks are started together and each swallows its own failure, so
  \<open>Promise.allSettled\<close> always fulfils and the \<open>catch\<close> block is never entered. The
  result is \<open>Inr\<close> when the returned promise fulfils, \<open>Inl\<close> when it rejects.
\<close>

definition cleanupUpload :: "config \<Rightarrow> jsstring \<Rightarrow> 's world \<Rightarrow> errno + 's world" where
  "cleanupUpload cfg uploadId w =
     (let filePath = uploadId;
          metadataPath = filePath @ js ''.json'';
          d1 = unlink_quiet (dir w) filePath;
          d2 = unlink_quiet d1 metadataPath
      in Inr (logger (CleanedUp uploadId) (w\<lparr>dir := d2\<rparr>)))"

subsection \<open>\<open>onUploadFinish\<close>\<close>

text \<open>
  An upload as the tus library hands it to the hook: its identifier and its metadata.
  \<open>metadata\<close> is \<open>None\<close> when the property is undefined; a metadata value is \<open>None\<close>
  when it is \<open>null\<close>.
\<close>

record upload =
  upload_id :: jsstring
  metadata :: "(jsstring \<rightharpoonup> jsstring option) option"

text \<open>\<^verbatim>\<open>(upload?.metadata || {})?.filename\<close>: the client-supplied name, if there is one.\<close>

definition metaData_filename :: "upload \<Rightarrow> jsstring option" where
  "metaData_filename u =
     (let metaData = (case metadata u of None \<Rightarrow> Map.empty | Some m \<Rightarrow> m) in
      case metaData (js ''filename'') of
        None \<Rightarrow> None
      | Some v \<Rightarrow> v)"

text \<open>\<^verbatim>\<open>metaData?.filename ? sanitizeFilename(metaData.filename) : 'unnamed_file'\<close>.\<close>

definition fileName :: "upload \<Rightarrow> jsstring" where
  "fileName u =
     (case metaData_filename u of
        None \<Rightarrow> js ''unnamed_file''
      | Some f \<Rightarrow> if f \<noteq> [] then sanitizeFilename (Some f) else js ''unnamed_file'')"

definition newFileName :: "upload \<Rightarrow> jsstring" where
  "newFileName u =
     (let extension = extname (fileName u);
          baseName = basename (fileName u) extension;
          hashedFileName = upload_id u
      in if extension \<noteq> [] then baseName @ js ''--'' @ hashedFileName @ extension
         else baseName @ js ''--'' @ hashedFileName)"

text \<open>
  The \<open>try\<close> block of the timer callback. \<open>Inl\<close> is a thrown error, with the state
  reached when it was thrown.
\<close>

definition renameUpload :: "config \<Rightarrow> upload \<Rightarrow> 's world \<Rightarrow> (errno \<times> 's world) + 's world" where
  "renameUpload cfg u w =
     (let hashedFileName = upload_id u;
          oldFilePath = hashedFileName;
          newFilePath = newFileName u;
          metadataPath = oldFilePath @ js ''.json''
      in case stat (dir w) oldFilePath of
           Inl e \<Rightarrow> Inl (e, w)
         | Inr stats \<Rightarrow>
             (let w1 = logger (UploadSize stats) w in
              case rename (dir w1) oldFilePath newFilePath of
                Inl e \<Rightarrow> Inl (e, w1)
              | Inr d \<Rightarrow>
                  Inr (logger (FileRenamed (newFileName u))
                         (w1\<lparr>dir := unlink_quiet d metadataPath\<rparr>))))"

text \<open>
  The callback that \<open>onUploadFinish\<close> hands to \<open>setTimeout\<close>; \<open>w\<close> is the state when the
  timer fires.
\<close>

definition onUploadFinish_timer :: "config \<Rightarrow> upload \<Rightarrow> 's world \<Rightarrow> errno + 's world" where
  "onUploadFinish_timer cfg u w =
     (case renameUpload cfg u w of
        Inr w' \<Rightarrow> Inr w'
      | Inl (e, w') \<Rightarrow> cleanupUpload cfg (upload_id u) (logger (RenameError (upload_id u) e) w'))"

definition onUploadFinish :: "upload \<Rightarrow> 's world \<Rightarrow> 's world" where
  "onUploadFinish u w = logger (UploadFinished (upload_id u)) w"

subsection \<open>The upload route\<close>

record request =
  req_method :: jsstring
  req_ip :: jsstring

datatype verdict = Next | TooManyRequests

definition windowMs :: int where "windowMs = 15 * 60 * 1000"
definition limit_max :: nat where "limit_max = 50"

text \<open>\<^verbatim>\<open>skip: (req) => req.method !== 'POST'\<close>.\<close>

definition skip :: "request \<Rightarrow> bool" where
  "skip req = (req_method req \<noteq> js ''POST'')"

text \<open>
  The middleware built by \<open>rateLimit\<close>: a skipped request goes on untouched; any other
  request is counted under its key by the store (\<open>increment\<close>, which owns the window
  of \<open>windowMs\<close>) and is answered 429 once its count exceeds \<open>max\<close>.
\<close>

definition uploadCreationLimiter ::
    "(jsstring \<Rightarrow> 's \<Rightarrow> nat \<times> 's) \<Rightarrow> request \<Rightarrow> 's \<Rightarrow> verdict \<times> 's" where
  "uploadCreationLimiter increment req store =
     (if skip req then (Next, store)
      else (let (totalHits, store') = increment (req_ip req) store
            in if totalHits > limit_max then (TooManyRequests, store')
               else (Next, store')))"

text \<open>
  The options that server.js gives to the tus \<open>Server\<close>, next to the \<open>onUploadFinish\<close> hook.
\<close>

record tus_options =
  tus_path :: jsstring
  datastore_directory :: jsstring
  maxSize :: int

definition tusServer_options :: "config \<Rightarrow> tus_options" where
  "tusServer_options cfg =
     \<lparr>tus_path = js ''/files'', datastore_directory = uploadDir cfg, maxSize = maxFileSize cfg\<rparr>"

text \<open>
  \<open>tusServer.handle\<close> belongs to the tus library and is a parameter here: from its
  options, the request and the content of its data store it yields the status it sends,
  or an error message together with the status already sent, if any.
\<close>

type_synonym tus_handle =
  "tus_options \<Rightarrow> request \<Rightarrow> directory \<Rightarrow> ((jsstring \<times> nat option) + nat) \<times> directory"

definition tusHandler :: "tus_handle \<Rightarrow> config \<Rightarrow> request \<Rightarrow> 's world \<Rightarrow> nat \<times> 's world" where
  "tusHandler handle cfg req w =
     (case handle (tusServer_options cfg) req (dir w) of
        (Inr status, d) \<Rightarrow> (status, w\<lparr>dir := d\<rparr>)
      | (Inl (message, headersSent), d) \<Rightarrow>
          (let w1 = logger (TusHandlerError message) (w\<lparr>dir := d\<rparr>) in
           case headersSent of
             None \<Rightarrow> (500, w1)
           | Some status \<Rightarrow> (status, w1)))"

text \<open>
  \<^verbatim>\<open>uploadApp.use(uploadCreationLimiter); uploadApp.all('*', tusHandler)\<close>: the answer to
  a request under \<open>/files\<close> and the state that it leaves.
\<close>

definition uploadApp ::
    "(jsstring \<Rightarrow> 's \<Rightarrow> nat \<times> 's) \<Rightarrow> tus_handle \<Rightarrow> config \<Rightarrow> request \<Rightarrow> 's world
       \<Rightarrow> nat \<times> 's world" where
  "uploadApp increment handle cfg req w =
     (case uploadCreationLimiter increment req (limiter w) of
        (TooManyRequests, store') \<Rightarrow> (429, w\<lparr>limiter := store'\<rparr>)
      | (Next, store') \<Rightarrow> tusHandler handle cfg req (w\<lparr>limiter := store'\<rparr>))"

section \<open>The sweep of old files (scripts/cleanup.js)\<close>

definition MAX_AGE_DAYS :: int where "MAX_AGE_DAYS = 30"
definition MAX_AGE_MS :: int where "MAX_AGE_MS = MAX_AGE_DAYS * 24 * 60 * 60 * 1000"

record sweep =
  sdir :: directory
  deletedCount :: nat
  freedSpace :: nat

text \<open>
  The \<open>for\<close> loop over the names that \<open>readdir\<close> returned. \<open>Inl\<close> is a thrown error with
  the state reached when it was thrown.
\<close>

fun sweep_loop :: "int \<Rightarrow> jsstring list \<Rightarrow> sweep \<Rightarrow> (errno \<times> sweep) + sweep" where
  "sweep_loop now [] s = Inr s"
| "sweep_loop now (file # files) s =
     (if file = js ''.gitkeep'' then sweep_loop now files s
      else
        (case stat (sdir s) file of
           Inl e \<Rightarrow> Inl (e, s)
         | Inr (File mtimeMs sz) \<Rightarrow>
             (let age = now - mtimeMs in
              if age > MAX_AGE_MS then
                (case unlink (sdir s) file of
                   Inl e \<Rightarrow> Inl (e, s)
                 | Inr d \<Rightarrow>
                     sweep_loop now files
                       (s\<lparr>sdir := d, deletedCount := deletedCount s + 1,
                          freedSpace := freedSpace s + sz\<rparr>))
              else sweep_loop now files s)
         | Inr _ \<Rightarrow> sweep_loop now files s))"

datatype exit_status = Finished | Exited nat

text \<open>
  \<open>cleanupOldFiles\<close> at time \<open>now\<close> on \<open>UPLOAD_DIR\<close>, the directory \<open>uploads\<close> next to
  server.js, which is the server's default upload directory (\<open>None\<close> when the directory
  does not exist, so that \<open>readdir\<close> throws). The \<open>catch\<close> block ends the process with
  status 1; what was deleted before stays deleted.
\<close>

definition cleanupOldFiles :: "int \<Rightarrow> directory option \<Rightarrow> exit_status \<times> directory option \<times> nat \<times> nat" where
  "cleanupOldFiles now root =
     (case root of
        None \<Rightarrow> (Exited 1, None, 0, 0)
      | Some d \<Rightarrow>
          (let files = map fst d in
           case sweep_loop now files \<lparr>sdir = d, deletedCount = 0, freedSpace = 0\<rparr> of
             Inr s \<Rightarrow> (Finished, Some (sdir s), deletedCount s, freedSpace s)
           | Inl (e, s) \<Rightarrow> (Exited 1, Some (sdir s), deletedCount s, freedSpace s)))"

text \<open>The middleware on a run of requests, each seeing the store the previous one left.\<close>

fun limiter_run ::
    "(jsstring \<Rightarrow> 's \<Rightarrow> nat \<times> 's) \<Rightarrow> request list \<Rightarrow> 's \<Rightarrow> verdict list \<times> 's" where
  "limiter_run increment [] store = ([], store)"
| "limiter_run increment (req # reqs) store =
     (case uploadCreationLimiter increment req store of
        (v, store1) \<Rightarrow>
          (case limiter_run increment reqs store1 of
             (vs, store2) \<Rightarrow> (v # vs, store2)))"

text \<open>
  What the sweep's two tests say of an entry: it is not the placeholder, and it is a
  regular file last modified more than \<open>MAX_AGE_MS\<close> before \<open>now\<close>.
\<close>

definition expired :: "int \<Rightarrow> jsstring \<Rightarrow> node \<Rightarrow> bool" where
  "expired now name n =
     (name \<noteq> js ''.gitkeep''
      \<and> (case n of File mtimeMs _ \<Rightarrow> now - mtimeMs > MAX_AGE_MS | _ \<Rightarrow> False))"

text \<open>
  The identifiers that the tus library generates: 16 random bytes written as 32
  hexadecimal digits.
\<close>

definition hex_digit :: "jschar \<Rightarrow> bool" where
  "hex_digit c = ((0x30 \<le> c \<and> c \<le> 0x39) \<or> (0x61 \<le> c \<and> c \<le> 0x66))"

definition tus_id :: "jsstring \<Rightarrow> bool" where
  "tus_id s = (length s = 32 \<and> list_all hex_digit s)"

text \<open>Whether a string has two adjacent dots.\<close>

fun has_dotdot :: "jsstring \<Rightarrow> bool" where
  "has_dotdot (a # b # rest) = ((a = dot \<and> b = dot) \<or> has_dotdot (b # rest))"
| "has_dotdot s = False"

section \<open>Concrete states\<close>

text \<open>The configuration that server.js builds from an empty environment.\<close>

definition default_config :: config where
  "default_config =
     \<lparr>uploadDir = js ''/app/uploads'', maxFileSize = 10737418240, minFreeSpace = 5368709120,
      chunkSize = 5242880, allowedExtensions = None, uploadTimeout = 3600000\<rparr>"

text \<open>The configuration under \<^verbatim>\<open>ALLOWED_EXTENSIONS=.jpg,.png\<close>.\<close>

definition restricted_config :: config where
  "restricted_config =
     default_config\<lparr>allowedExtensions := parseAllowedExtensions (Some (js ''.jpg,.png''))\<rparr>"

definition named_upload :: "string \<Rightarrow> upload" where
  "named_upload name =
     \<lparr>upload_id = js ''3f9a'', metadata = Some [js ''filename'' \<mapsto> Some (js name)]\<rparr>"

definition unnamed_upload :: upload where
  "unnamed_upload = \<lparr>upload_id = js ''3f9a'', metadata = Some Map.empty\<rparr>"

text \<open>An upload without a filename, under an identifier of the tus library.\<close>

definition tus_upload :: upload where
  "tus_upload =
     \<lparr>upload_id = js ''9f86d081884c7d659a2feaa0c55ad015'', metadata = Some Map.empty\<rparr>"

text \<open>A name of 250 letters, and a name with a null byte.\<close>

definition long_upload :: upload where
  "long_upload = named_upload (replicate 250 (CHR ''a''))"

definition nul_upload :: upload where
  "nul_upload = named_upload [CHR ''a'', CHR 0x00, CHR ''b'']"

text \<open>
  The upload directory holding the completed upload \<open>3f9a\<close>: its partial file, last
  written at time 1000, and its metadata record.
\<close>

definition completed_world :: "(jsstring \<times> nat) list world" where
  "completed_world =
     \<lparr>dir = [(js ''3f9a'', File 1000 2048), (js ''3f9a.json'', File 1000 120)],
      logs = [], disk = Some \<lparr>free = 1073741824, total = 107374182400\<rparr>,
      limiter = []\<rparr>"

text \<open>The same, with the partial file gone.\<close>

definition missing_world :: "(jsstring \<times> nat) list world" where
  "missing_world = completed_world\<lparr>dir := [(js ''3f9a.json'', File 1000 120)]\<rparr>"

text \<open>The same as \<open>completed_world\<close>, with a directory in the place of the public name.\<close>

definition squatted_world :: "(jsstring \<times> nat) list world" where
  "squatted_world =
     completed_world\<lparr>dir := dir completed_world @ [(js ''report--3f9a.pdf'', Directory False)]\<rparr>"

text \<open>A store that counts the requests of each key, and never resets.\<close>

definition count_hits :: "jsstring \<Rightarrow> (jsstring \<times> nat) list \<Rightarrow> nat \<times> (jsstring \<times> nat) list" where
  "count_hits key store =
     (let n = (case map_of store key of None \<Rightarrow> 1 | Some k \<Rightarrow> k + 1)
      in (n, AList.update key n store))"

definition request_of :: "string \<Rightarrow> request" where
  "request_of m = \<lparr>req_method = js m, req_ip = js ''203.0.113.7''\<rparr>"

text \<open>
  A handle that answers every \<open>POST\<close> with 201 after adding the partial file and the
  metadata record of a new upload \<open>3f9a\<close> to the data store.
\<close>

definition creating_handle :: tus_handle where
  "creating_handle opts req d =
     (if req_method req = js ''POST''
      then (Inr 201, d @ [(js ''3f9a'', File 0 0), (js ''3f9a.json'', File 0 120)])
      else (Inr 404, d))"

text \<open>
  An upload directory at time \<open>MAX_AGE_MS + 2000\<close>: the placeholder, an old partial file
  with its metadata record, an old finalized file, a recent finalized file and a
  subdirectory.
\<close>

definition old_directory :: directory where
  "old_directory =
     [(js ''.gitkeep'', File 0 0),
      (js ''77aa'', File 1000 512),
      (js ''77aa.json'', File 1000 120),
      (js ''report--3f9a.pdf'', File 1000 2048),
      (js ''notes--51c2.txt'', File 5000 64),
      (js ''archive'', Directory False)]"

section \<open>Properties of the sanitizer\<close>

lemma has_dotdot_append: "has_dotdot (ps @ dot # dot # ss)"
  by (induction ps rule: has_dotdot.induct) auto

lemma has_dotdot_split: "has_dotdot s \<Longrightarrow> \<exists>ps ss. s = ps @ dot # dot # ss"
proof (induction s rule: has_dotdot.induct)
  case (1 a b rest)
  show ?case
  proof (cases "a = dot \<and> b = dot")
    case True
    then have "a # b # rest = [] @ dot # dot # rest" by simp
    then show ?thesis by blast
  next
    case False
    with 1 obtain ps ss where "b # rest = ps @ dot # dot # ss" by auto
    then have "a # b # rest = (a # ps) @ dot # dot # ss" by simp
    then show ?thesis by blast
  qed
qed simp_all

lemma sublist_dotdot_iff: "sublist [dot, dot] s \<longleftrightarrow> has_dotdot s"
proof
  assume "sublist [dot, dot] s"
  then obtain ps ss where "s = ps @ [dot, dot] @ ss" by (auto simp: sublist_def)
  then show "has_dotdot s" by (simp add: has_dotdot_append)
next
  assume "has_dotdot s"
  then obtain ps ss where "s = ps @ dot # dot # ss" using has_dotdot_split by blast
  then have "s = ps @ [dot, dot] @ ss" by simp
  then show "sublist [dot, dot] s" unfolding sublist_def by blast
qed

lemma replace_dotdot_head:
  "a \<noteq> dot \<Longrightarrow> replace_dotdot (a # s) = a # replace_dotdot s"
  by (cases s) auto

lemma replace_dotdot_no_dotdot: "\<not> has_dotdot (replace_dotdot s)"
proof (induction s rule: replace_dotdot.induct)
  case (1 a b rest)
  show ?case
  proof (cases "a = dot \<and> b = dot")
    case True
    with 1 show ?thesis
      by (cases "replace_dotdot rest") (auto simp: dash_def dot_def)
  next
    case False
    note nd = this
    show ?thesis
    proof (cases "b = dot")
      case True
      with nd have "a \<noteq> dot" by simp
      with 1 nd show ?thesis
        by (cases "replace_dotdot (b # rest)") auto
    next
      case False
      with 1 nd show ?thesis by (simp add: replace_dotdot_head)
    qed
  qed
qed simp_all

lemma sublist_trim: "sublist (trim s) s"
proof -
  have "suffix (dropWhile js_whitespace s) s" by (rule suffix_dropWhile)
  then have a: "sublist (dropWhile js_whitespace s) s" by (rule suffix_imp_sublist)
  have "suffix (dropWhile js_whitespace (rev (dropWhile js_whitespace s)))
          (rev (dropWhile js_whitespace s))" by (rule suffix_dropWhile)
  then have "sublist (dropWhile js_whitespace (rev (dropWhile js_whitespace s)))
          (rev (dropWhile js_whitespace s))" by (rule suffix_imp_sublist)
  then have "sublist (trim s) (dropWhile js_whitespace s)"
    unfolding trim_def using sublist_rev_left by blast
  with a show ?thesis using sublist_order.order_trans by blast
qed

lemma replace_hostile_clean:
  "slash \<notin> set (replace_hostile s)" "backslash \<notin> set (replace_hostile s)"
  by (auto simp: replace_hostile_def hostile_def dash_def slash_def backslash_def)

lemma set_replace_dotdot: "set (replace_dotdot s) \<subseteq> insert dash (set s)"
  by (induction s rule: replace_dotdot.induct) auto

lemma sanitize_core_sublist:
  "sublist (substring0 n (trim t)) t"
proof -
  have "sublist (take n (trim t)) (trim t)" by simp
  then show ?thesis
    unfolding substring0_def using sublist_trim sublist_order.order_trans by blast
qed


lemma sanitize_core_clean:
  assumes "r = substring0 n (trim (replace_dotdot (replace_hostile f)))"
  shows "slash \<notin> set r" and "backslash \<notin> set r" and "\<not> sublist [dot, dot] r"
proof -
  let ?t = "replace_dotdot (replace_hostile f)"
  have sub: "sublist r ?t" using assms sanitize_core_sublist by simp
  then have "set r \<subseteq> set ?t" by (rule set_mono_sublist)
  moreover have "set ?t \<subseteq> insert dash (set (replace_hostile f))"
    by (rule set_replace_dotdot)
  ultimately have incl: "set r \<subseteq> insert dash (set (replace_hostile f))" by blast
  have "slash \<noteq> dash" "backslash \<noteq> dash" by (simp_all add: slash_def backslash_def dash_def)
  with incl replace_hostile_clean [of f] show "slash \<notin> set r" "backslash \<notin> set r" by auto
  have "\<not> sublist [dot, dot] ?t"
    by (simp add: sublist_dotdot_iff replace_dotdot_no_dotdot)
  with sub show "\<not> sublist [dot, dot] r"
    using sublist_order.order_trans by blast
qed

lemma placeholder_clean:
  "length (js ''unnamed_file'') \<le> 255" "slash \<notin> set (js ''unnamed_file'')"
  "backslash \<notin> set (js ''unnamed_file'')" "\<not> has_dotdot (js ''unnamed_file'')"
  by (simp_all add: js_def slash_def backslash_def dot_def)

lemma sanitizeFilename_props:
  "length (sanitizeFilename f) \<le> 255
   \<and> slash \<notin> set (sanitizeFilename f)
   \<and> backslash \<notin> set (sanitizeFilename f)
   \<and> \<not> sublist (js ''..'') (sanitizeFilename f)"
proof -
  have dd: "js ''..'' = [dot, dot]" by (simp add: js_def dot_def)
  show ?thesis
  proof (cases "f = None \<or> f = Some []")
    case True
    then have "sanitizeFilename f = js ''unnamed_file''"
      by (auto simp: sanitizeFilename_def)
    then show ?thesis
      using placeholder_clean by (simp add: dd sublist_dotdot_iff)
  next
    case False
    then obtain g where g: "f = Some g" "g \<noteq> []" by (cases f) auto
    define r where "r = substring0 255 (trim (replace_dotdot (replace_hostile g)))"
    have eq: "sanitizeFilename f = r" using g by (simp add: sanitizeFilename_def r_def)
    have "length r \<le> 255" by (simp add: r_def substring0_def)
    with sanitize_core_clean [OF r_def] show ?thesis by (simp add: eq dd)
  qed
qed

section \<open>Properties of the file operations\<close>

lemma map_of_unlink_quiet:
  "map_of (unlink_quiet d p) q =
     (if q = p \<and> \<not> is_directory d p then None else map_of d q)"
  by (auto simp: unlink_quiet_def unlink_def is_directory_def AList.delete_conv
           split: option.splits node.splits)

text \<open>The two unlinks of \<open>cleanupUpload\<close> may settle in either order.\<close>

lemma unlink_quiet_commute:
  "unlink_quiet (unlink_quiet d p) q = unlink_quiet (unlink_quiet d q) p"
  by (auto simp: unlink_quiet_def unlink_def AList.delete_conv delete_twist
           split: option.splits node.splits)

lemma is_directory_unlink_quiet:
  "q \<noteq> p \<Longrightarrow> is_directory (unlink_quiet d p) q = is_directory d q"
  by (simp add: is_directory_def map_of_unlink_quiet)

lemma json_neq: "uploadId @ js ''.json'' \<noteq> uploadId"
  by (simp add: js_def)

lemma stat_ok_iff:
  "stat d p = Inr n \<longleftrightarrow> map_of d p = Some n \<and> n \<noteq> Dangling"
  by (auto simp: stat_def split: option.splits node.splits)

lemma rename_file:
  assumes "map_of d old = Some (File m s)" and "old \<noteq> new" and "\<not> is_directory d new"
      and "valid_name new"
  shows "rename d old new = Inr (AList.update new (File m s) (AList.delete old d))"
  using assms
  by (auto simp: rename_def is_directory_def valid_name_def name_error_def
           split: option.splits node.splits if_splits)

lemma dir_logger [simp]: "dir (logger e w) = dir w"
  by (simp add: logger_def)

lemma logs_logger [simp]: "logs (logger e w) = logs w @ [e]"
  by (simp add: logger_def)

section \<open>Properties of \<open>cleanupUpload\<close>\<close>

lemma cleanupUpload_eq:
  "cleanupUpload cfg uploadId w =
     Inr (logger (CleanedUp uploadId)
            (w\<lparr>dir := unlink_quiet (unlink_quiet (dir w) uploadId) (uploadId @ js ''.json'')\<rparr>))"
  by (simp add: cleanupUpload_def Let_def)

lemma cleanup_lookup:
  "map_of (unlink_quiet (unlink_quiet d p) (p @ js ''.json'')) q =
     (if q = p \<and> \<not> is_directory d p then None
      else if q = p @ js ''.json'' \<and> \<not> is_directory d (p @ js ''.json'') then None
      else map_of d q)"
  using json_neq [of p]
  by (auto simp: map_of_unlink_quiet is_directory_unlink_quiet)

text \<open>
  C7. For every upload identifier, \<open>cleanupUpload\<close> fulfils (it never rejects), whether
  or not the partial file and the metadata record exist; afterwards neither of the two
  names is present, unless a directory stands under it, and no other entry has changed.
\<close>

theorem cleanupUpload_removes_both:
  "\<exists>w'. cleanupUpload cfg uploadId w = Inr w'
     \<and> (\<not> is_directory (dir w) uploadId \<longrightarrow> map_of (dir w') uploadId = None)
     \<and> (\<not> is_directory (dir w) (uploadId @ js ''.json'')
          \<longrightarrow> map_of (dir w') (uploadId @ js ''.json'') = None)
     \<and> (\<forall>q. q \<noteq> uploadId \<longrightarrow> q \<noteq> uploadId @ js ''.json''
          \<longrightarrow> map_of (dir w') q = map_of (dir w) q)"
  by (simp add: cleanupUpload_eq cleanup_lookup)

text \<open>
  Both files present, then only the metadata record present, then (the second call on
  the state the first one left) both absent.
\<close>

theorem cleanupUpload_removes_both_witness:
  "map_of (dir completed_world) (js ''3f9a'') = Some (File 1000 2048)
   \<and> map_of (dir completed_world) (js ''3f9a'' @ js ''.json'') = Some (File 1000 120)
   \<and> (\<exists>w'. cleanupUpload default_config (js ''3f9a'') completed_world = Inr w'
         \<and> map_of (dir w') (js ''3f9a'') = None
         \<and> map_of (dir w') (js ''3f9a'' @ js ''.json'') = None
         \<and> (\<exists>w''. cleanupUpload default_config (js ''3f9a'') w' = Inr w''
               \<and> map_of (dir w'') (js ''3f9a'') = None
               \<and> map_of (dir w'') (js ''3f9a'' @ js ''.json'') = None))
   \<and> map_of (dir missing_world) (js ''3f9a'') = None
   \<and> (\<exists>w'. cleanupUpload default_config (js ''3f9a'') missing_world = Inr w'
         \<and> map_of (dir w') (js ''3f9a'') = None
         \<and> map_of (dir w') (js ''3f9a'' @ js ''.json'') = None)"
proof -
  have a: "map_of (dir completed_world) (js ''3f9a'') = Some (File 1000 2048)"
    and b: "map_of (dir completed_world) (js ''3f9a'' @ js ''.json'') = Some (File 1000 120)"
    and c: "map_of (dir missing_world) (js ''3f9a'') = None"
    and c': "map_of (dir missing_world) (js ''3f9a'' @ js ''.json'') = Some (File 1000 120)"
    by (simp_all add: completed_world_def missing_world_def js_def)
  from cleanupUpload_removes_both [of default_config "js ''3f9a''" completed_world]
  obtain w1 where w1: "cleanupUpload default_config (js ''3f9a'') completed_world = Inr w1"
    "map_of (dir w1) (js ''3f9a'') = None" "map_of (dir w1) (js ''3f9a'' @ js ''.json'') = None"
    using a b by (auto simp: is_directory_def)
  from cleanupUpload_removes_both [of default_config "js ''3f9a''" w1]
  obtain w2 where w2: "cleanupUpload default_config (js ''3f9a'') w1 = Inr w2"
    "map_of (dir w2) (js ''3f9a'') = None" "map_of (dir w2) (js ''3f9a'' @ js ''.json'') = None"
    using w1 by (auto simp: is_directory_def)
  from cleanupUpload_removes_both [of default_config "js ''3f9a''" missing_world]
  obtain w3 where w3: "cleanupUpload default_config (js ''3f9a'') missing_world = Inr w3"
    "map_of (dir w3) (js ''3f9a'') = None" "map_of (dir w3) (js ''3f9a'' @ js ''.json'') = None"
    using c c' by (auto simp: is_directory_def)
  from a b c w1 w2 w3 show ?thesis by blast
qed

section \<open>Properties of the finalization\<close>

lemma fileName_sanitize: "fileName u = sanitizeFilename (metaData_filename u)"
  by (simp add: fileName_def sanitizeFilename_def split: option.splits)

lemma newFileName_format:
  "newFileName u =
     basename (fileName u) (extname (fileName u)) @ js ''--'' @ upload_id u
       @ extname (fileName u)"
  by (simp add: newFileName_def Let_def)

lemma count_dash:
  "length (filter (\<lambda>c. c = dash) (js ''.json'')) = 0"
  "length (filter (\<lambda>c. c = dash) (js ''--'')) = 2"
  by (simp_all add: js_def dash_def)

text \<open>The public name has at least two dashes more than the name of the metadata record.\<close>

lemma newFileName_neq_metadata: "newFileName u \<noteq> upload_id u @ js ''.json''"
proof
  assume "newFileName u = upload_id u @ js ''.json''"
  then have "length (filter (\<lambda>c. c = dash) (newFileName u))
           = length (filter (\<lambda>c. c = dash) (upload_id u @ js ''.json''))" by simp
  then show False by (simp add: newFileName_format count_dash)
qed

lemma newFileName_neq_id: "newFileName u \<noteq> upload_id u"
proof
  assume "newFileName u = upload_id u"
  then have "length (newFileName u) = length (upload_id u)" by simp
  then show False by (simp add: newFileName_format js_def)
qed

lemma renameUpload_fails:
  assumes "isl (stat (dir w) (upload_id u))
           \<or> isl (rename (dir w) (upload_id u) (newFileName u))"
  shows "\<exists>e w1. renameUpload cfg u w = Inl (e, w1) \<and> dir w1 = dir w"
  using assms
  by (auto simp: renameUpload_def Let_def isl_def split: sum.splits)

lemma timer_failure:
  assumes "renameUpload cfg u w = Inl (e, w1)"
  shows "onUploadFinish_timer cfg u w =
           Inr (logger (CleanedUp (upload_id u))
                 ((logger (RenameError (upload_id u) e) w1)
                    \<lparr>dir := unlink_quiet (unlink_quiet (dir w1) (upload_id u))
                              (upload_id u @ js ''.json'')\<rparr>))"
  using assms by (simp add: onUploadFinish_timer_def cleanupUpload_eq)

lemma timer_success:
  assumes "map_of (dir w) (upload_id u) = Some (File m s)"
      and "\<not> is_directory (dir w) (newFileName u)"
      and "valid_name (newFileName u)"
  shows "onUploadFinish_timer cfg u w =
     Inr (logger (FileRenamed (newFileName u))
           ((logger (UploadSize (File m s)) w)
              \<lparr>dir := unlink_quiet
                        (AList.update (newFileName u) (File m s)
                           (AList.delete (upload_id u) (dir w)))
                        (upload_id u @ js ''.json'')\<rparr>))"
proof -
  have st: "stat (dir w) (upload_id u) = Inr (File m s)"
    using assms(1) by (simp add: stat_ok_iff)
  have rn: "rename (dir w) (upload_id u) (newFileName u) =
     Inr (AList.update (newFileName u) (File m s) (AList.delete (upload_id u) (dir w)))"
    using assms newFileName_neq_id [of u] by (intro rename_file) auto
  show ?thesis
    by (simp add: onUploadFinish_timer_def renameUpload_def Let_def st rn)
qed

lemma renamed_lookup:
  "map_of (unlink_quiet (AList.update (newFileName u) n (AList.delete (upload_id u) d))
             (upload_id u @ js ''.json'')) q =
     (if q = newFileName u then Some n
      else if q = upload_id u then None
      else if q = upload_id u @ js ''.json'' \<and> \<not> is_directory d (upload_id u @ js ''.json'')
        then None
      else map_of d q)"
  using newFileName_neq_metadata [of u] newFileName_neq_id [of u] json_neq [of "upload_id u"]
  by (auto simp: map_of_unlink_quiet is_directory_def AList.update_conv AList.delete_conv)

lemma timer_success_effect:
  assumes "map_of (dir w) (upload_id u) = Some (File m s)"
      and "\<not> is_directory (dir w) (newFileName u)"
      and "valid_name (newFileName u)"
  shows "\<exists>w'. onUploadFinish_timer cfg u w = Inr w'
           \<and> map_of (dir w') (newFileName u) = Some (File m s)
           \<and> map_of (dir w') (upload_id u) = None
           \<and> (\<not> is_directory (dir w) (upload_id u @ js ''.json'')
                \<longrightarrow> map_of (dir w') (upload_id u @ js ''.json'') = None)
           \<and> (\<forall>q. q \<noteq> newFileName u \<longrightarrow> q \<noteq> upload_id u \<longrightarrow> q \<noteq> upload_id u @ js ''.json''
                \<longrightarrow> map_of (dir w') q = map_of (dir w) q)"
  unfolding timer_success [OF assms]
  using newFileName_neq_metadata [of u] newFileName_neq_id [of u] json_neq [of "upload_id u"]
  by (simp add: renamed_lookup)

lemma timer_invalid_name:
  assumes "map_of (dir w) (upload_id u) = Some (File m s)"
      and "\<not> valid_name (newFileName u)"
  shows "\<exists>w' e. onUploadFinish_timer cfg u w = Inr w'
           \<and> map_of (dir w') (upload_id u) = None
           \<and> map_of (dir w') (newFileName u) = map_of (dir w) (newFileName u)
           \<and> RenameError (upload_id u) e \<in> set (logs w')"
proof -
  have st: "stat (dir w) (upload_id u) = Inr (File m s)"
    using assms(1) by (simp add: stat_ok_iff)
  have "isl (rename (dir w) (upload_id u) (newFileName u))"
    using assms newFileName_neq_id [of u]
    by (auto simp: rename_def valid_name_def name_error_def split: if_splits)
  then obtain e where rn: "rename (dir w) (upload_id u) (newFileName u) = Inl e"
    by (auto simp: isl_def)
  have r: "renameUpload cfg u w = Inl (e, logger (UploadSize (File m s)) w)"
    by (simp add: renameUpload_def Let_def st rn)
  have nd: "\<not> is_directory (dir w) (upload_id u)"
    using assms(1) by (simp add: is_directory_def)
  let ?w' = "logger (CleanedUp (upload_id u))
               ((logger (RenameError (upload_id u) e) (logger (UploadSize (File m s)) w))
                  \<lparr>dir := unlink_quiet (unlink_quiet (dir w) (upload_id u))
                            (upload_id u @ js ''.json'')\<rparr>)"
  have "onUploadFinish_timer cfg u w = Inr ?w'"
    using timer_failure [OF r] by simp
  moreover have "map_of (dir ?w') (upload_id u) = None"
    using nd by (simp add: cleanup_lookup)
  moreover have "map_of (dir ?w') (newFileName u) = map_of (dir w) (newFileName u)"
    using newFileName_neq_metadata [of u] newFileName_neq_id [of u]
    by (simp add: cleanup_lookup)
  moreover have "RenameError (upload_id u) e \<in> set (logs ?w')" by simp
  ultimately show ?thesis by blast
qed

lemma long_upload_names:
  "upload_id long_upload = js ''3f9a''"
  "newFileName long_upload = js (replicate 250 (CHR ''a'') @ ''--3f9a'')"
  by code_simp+

lemma nul_upload_names:
  "upload_id nul_upload = js ''3f9a''"
  "newFileName nul_upload = js [CHR ''a'', CHR 0x00, CHR ''b'', CHR ''-'', CHR ''-'',
                                CHR ''3'', CHR ''f'', CHR ''9'', CHR ''a'']"
  by code_simp+

lemma completed_world_facts:
  "stat (dir completed_world) (js ''3f9a'') = Inr (File 1000 2048)"
  "unlink_quiet (unlink_quiet (dir completed_world) (js ''3f9a'')) (js ''3f9a'' @ js ''.json'')
     = []"
  "logs completed_world = []"
  by code_simp+

lemma refused_renames:
  "rename (dir completed_world) (js ''3f9a'') (js (replicate 250 (CHR ''a'') @ ''--3f9a''))
     = Inl ENAMETOOLONG"
  "rename (dir completed_world) (js ''3f9a'')
     (js [CHR ''a'', CHR 0x00, CHR ''b'', CHR ''-'', CHR ''-'',
          CHR ''3'', CHR ''f'', CHR ''9'', CHR ''a''])
     = Inl ERR_INVALID_ARG_VALUE"
  by code_simp+

lemma refused_name_deletes:
  assumes "upload_id u = js ''3f9a''"
      and "rename (dir completed_world) (js ''3f9a'') (newFileName u) = Inl e"
  shows "onUploadFinish_timer cfg u completed_world
       = Inr (completed_world
               \<lparr>dir := [],
                logs := [UploadSize (File 1000 2048), RenameError (js ''3f9a'') e,
                         CleanedUp (js ''3f9a'')]\<rparr>)"
proof -
  have r: "renameUpload cfg u completed_world
             = Inl (e, logger (UploadSize (File 1000 2048)) completed_world)"
    using assms by (simp add: renameUpload_def Let_def completed_world_facts(1))
  show ?thesis
    unfolding timer_failure [OF r]
    by (simp add: assms(1) completed_world_facts logger_def)
qed

text \<open>
  C5 (what the code does). The public name is always \<open>baseName @ ''--'' @ id @ extension\<close>,
  with \<open>baseName\<close> and \<open>extension\<close> taken by \<open>path.basename\<close> and \<open>path.extname\<close> from
  the sanitized client-supplied name. When the partial file is stored under the
  identifier, no directory stands under the public name and the file system accepts the
  public name, the callback leaves the file under the public name and removes the
  metadata record. But \<open>sanitizeFilename\<close> cuts the client's name to 255 code units and
  keeps a null byte, and the public name adds \<open>--\<close> and the identifier to it: when the
  file system refuses the public name, the \<open>rename\<close> throws and the callback deletes the
  completed upload. So it does for a name of 250 letters (a public name of 256 bytes
  with the identifier \<open>3f9a\<close>) and for a name with a null byte.
\<close>

theorem finalize_rename_and_name_limit:
  "newFileName u =
     basename (sanitizeFilename (metaData_filename u))
       (extname (sanitizeFilename (metaData_filename u)))
     @ js ''--'' @ upload_id u @ extname (sanitizeFilename (metaData_filename u))
   \<and> (map_of (dir w) (upload_id u) = Some (File m s)
        \<longrightarrow> \<not> is_directory (dir w) (newFileName u)
        \<longrightarrow> valid_name (newFileName u)
        \<longrightarrow> (\<exists>w'. onUploadFinish_timer cfg u w = Inr w'
               \<and> map_of (dir w') (newFileName u) = Some (File m s)
               \<and> map_of (dir w') (upload_id u) = None
               \<and> (\<not> is_directory (dir w) (upload_id u @ js ''.json'')
                    \<longrightarrow> map_of (dir w') (upload_id u @ js ''.json'') = None)))
   \<and> (map_of (dir w) (upload_id u) = Some (File m s)
        \<longrightarrow> \<not> valid_name (newFileName u)
        \<longrightarrow> (\<exists>w' e. onUploadFinish_timer cfg u w = Inr w'
               \<and> map_of (dir w') (upload_id u) = None
               \<and> map_of (dir w') (newFileName u) = map_of (dir w) (newFileName u)
               \<and> RenameError (upload_id u) e \<in> set (logs w')))
   \<and> length (sanitizeFilename (metaData_filename long_upload)) = 250
   \<and> utf8_length (newFileName long_upload) = 256
   \<and> onUploadFinish_timer default_config long_upload completed_world
       = Inr (completed_world
               \<lparr>dir := [],
                logs := [UploadSize (File 1000 2048), RenameError (js ''3f9a'') ENAMETOOLONG,
                         CleanedUp (js ''3f9a'')]\<rparr>)
   \<and> onUploadFinish_timer default_config nul_upload completed_world
       = Inr (completed_world
               \<lparr>dir := [],
                logs := [UploadSize (File 1000 2048),
                         RenameError (js ''3f9a'') ERR_INVALID_ARG_VALUE,
                         CleanedUp (js ''3f9a'')]\<rparr>)"
proof -
  have a: "newFileName u =
     basename (sanitizeFilename (metaData_filename u))
       (extname (sanitizeFilename (metaData_filename u)))
     @ js ''--'' @ upload_id u @ extname (sanitizeFilename (metaData_filename u))"
    using newFileName_format [of u] by (simp add: fileName_sanitize)
  have b: "map_of (dir w) (upload_id u) = Some (File m s)
        \<longrightarrow> \<not> is_directory (dir w) (newFileName u)
        \<longrightarrow> valid_name (newFileName u)
        \<longrightarrow> (\<exists>w'. onUploadFinish_timer cfg u w = Inr w'
               \<and> map_of (dir w') (newFileName u) = Some (File m s)
               \<and> map_of (dir w') (upload_id u) = None
               \<and> (\<not> is_directory (dir w) (upload_id u @ js ''.json'')
                    \<longrightarrow> map_of (dir w') (upload_id u @ js ''.json'') = None))"
    using timer_success_effect [of w u m s cfg] by blast
  have c: "map_of (dir w) (upload_id u) = Some (File m s)
        \<longrightarrow> \<not> valid_name (newFileName u)
        \<longrightarrow> (\<exists>w' e. onUploadFinish_timer cfg u w = Inr w'
               \<and> map_of (dir w') (upload_id u) = None
               \<and> map_of (dir w') (newFileName u) = map_of (dir w) (newFileName u)
               \<and> RenameError (upload_id u) e \<in> set (logs w'))"
    using timer_invalid_name [of w u m s cfg] by blast
  have d: "length (sanitizeFilename (metaData_filename long_upload)) = 250"
    by code_simp
  have e: "utf8_length (newFileName long_upload) = 256"
    unfolding long_upload_names by code_simp
  have f: "onUploadFinish_timer default_config long_upload completed_world
       = Inr (completed_world
               \<lparr>dir := [],
                logs := [UploadSize (File 1000 2048), RenameError (js ''3f9a'') ENAMETOOLONG,
                         CleanedUp (js ''3f9a'')]\<rparr>)"
    by (rule refused_name_deletes) (simp_all only: long_upload_names refused_renames)
  have g: "onUploadFinish_timer default_config nul_upload completed_world
       = Inr (completed_world
               \<lparr>dir := [],
                logs := [UploadSize (File 1000 2048),
                         RenameError (js ''3f9a'') ERR_INVALID_ARG_VALUE,
                         CleanedUp (js ''3f9a'')]\<rparr>)"
    by (rule refused_name_deletes) (simp_all only: nul_upload_names refused_renames)
  from a b c d e f g show ?thesis by (intro conjI)
qed

lemma report_names:
  "sanitizeFilename (metaData_filename (named_upload ''report.pdf'')) = js ''report.pdf''"
  "extname (js ''report.pdf'') = js ''.pdf''"
  "basename (js ''report.pdf'') (js ''.pdf'') = js ''report''"
  "upload_id (named_upload ''report.pdf'') = js ''3f9a''"
  by code_simp+

theorem finalize_rename_and_name_limit_witness:
  "newFileName (named_upload ''report.pdf'') = js ''report--3f9a.pdf''
   \<and> map_of (dir completed_world) (js ''3f9a'') = Some (File 1000 2048)
   \<and> \<not> is_directory (dir completed_world) (js ''report--3f9a.pdf'')
   \<and> \<not> is_directory (dir completed_world) (js ''3f9a.json'')
   \<and> valid_name (js ''report--3f9a.pdf'')
   \<and> (\<exists>w'. onUploadFinish_timer default_config (named_upload ''report.pdf'') completed_world
               = Inr w'
         \<and> map_of (dir w') (js ''report--3f9a.pdf'') = Some (File 1000 2048)
         \<and> map_of (dir w') (js ''3f9a'') = None
         \<and> map_of (dir w') (js ''3f9a.json'') = None)
   \<and> map_of (dir completed_world) (upload_id long_upload) = Some (File 1000 2048)
   \<and> \<not> valid_name (newFileName long_upload)
   \<and> (\<exists>w'. onUploadFinish_timer default_config long_upload completed_world = Inr w'
         \<and> map_of (dir w') (upload_id long_upload) = None
         \<and> map_of (dir w') (newFileName long_upload) = None)"
proof -
  note inst = finalize_rename_and_name_limit
    [of "named_upload ''report.pdf''" completed_world 1000 2048 default_config]
  note inst2 = finalize_rename_and_name_limit
    [of long_upload completed_world 1000 2048 default_config]
  have n: "newFileName (named_upload ''report.pdf'') = js ''report--3f9a.pdf''"
    using inst by (simp add: report_names) (simp add: js_def)
  have a: "map_of (dir completed_world) (js ''3f9a'') = Some (File 1000 2048)"
    and b: "\<not> is_directory (dir completed_world) (js ''report--3f9a.pdf'')"
    and c: "\<not> is_directory (dir completed_world) (js ''3f9a.json'')"
    by (simp_all add: completed_world_def is_directory_def js_def)
  have v: "valid_name (js ''report--3f9a.pdf'')" by code_simp
  have j: "js ''3f9a'' @ js ''.json'' = js ''3f9a.json''" by (simp add: js_def)
  have ok: "\<exists>w'. onUploadFinish_timer default_config (named_upload ''report.pdf'')
               completed_world = Inr w'
         \<and> map_of (dir w') (js ''report--3f9a.pdf'') = Some (File 1000 2048)
         \<and> map_of (dir w') (js ''3f9a'') = None
         \<and> map_of (dir w') (js ''3f9a.json'') = None"
    using inst a b c v unfolding n report_names j by blast
  have la: "map_of (dir completed_world) (upload_id long_upload) = Some (File 1000 2048)"
    and lv: "\<not> valid_name (newFileName long_upload)"
    and ln: "map_of (dir completed_world) (newFileName long_upload) = None"
    unfolding long_upload_names by code_simp+
  have bad: "\<exists>w'. onUploadFinish_timer default_config long_upload completed_world = Inr w'
         \<and> map_of (dir w') (upload_id long_upload) = None
         \<and> map_of (dir w') (newFileName long_upload) = None"
    using inst2 la lv unfolding ln by blast
  from n a b c v ok la lv bad show ?thesis by (intro conjI)
qed

text \<open>
  C6. Whenever the \<open>stat\<close> or the \<open>rename\<close> of the finalization fails, the callback still
  fulfils: it logs the failure and runs \<open>cleanupUpload\<close>, after which neither the
  partial file nor the metadata record is present (unless a directory stands under the
  name), and no other entry has changed.
\<close>

theorem finalize_failure_cleans_up:
  assumes "isl (stat (dir w) (upload_id u))
           \<or> isl (rename (dir w) (upload_id u) (newFileName u))"
  shows "\<exists>w' e. onUploadFinish_timer cfg u w = Inr w'
     \<and> (\<not> is_directory (dir w) (upload_id u) \<longrightarrow> map_of (dir w') (upload_id u) = None)
     \<and> (\<not> is_directory (dir w) (upload_id u @ js ''.json'')
          \<longrightarrow> map_of (dir w') (upload_id u @ js ''.json'') = None)
     \<and> (\<forall>q. q \<noteq> upload_id u \<longrightarrow> q \<noteq> upload_id u @ js ''.json''
          \<longrightarrow> map_of (dir w') q = map_of (dir w) q)
     \<and> RenameError (upload_id u) e \<in> set (logs w')
     \<and> CleanedUp (upload_id u) \<in> set (logs w')"
proof -
  from renameUpload_fails [OF assms] obtain e w1 where
    r: "renameUpload cfg u w = Inl (e, w1)" and d: "dir w1 = dir w" by blast
  let ?w' = "logger (CleanedUp (upload_id u))
               ((logger (RenameError (upload_id u) e) w1)
                  \<lparr>dir := unlink_quiet (unlink_quiet (dir w1) (upload_id u))
                            (upload_id u @ js ''.json'')\<rparr>)"
  show ?thesis
    unfolding timer_failure [OF r]
    by (intro exI [of _ ?w'] exI [of _ e]) (simp add: cleanup_lookup d logger_def)
qed

text \<open>
  The \<open>stat\<close> fails in \<open>missing_world\<close>, where the partial file is gone; the \<open>rename\<close>
  fails in \<open>squatted_world\<close>, where a directory has the public name.
\<close>

theorem finalize_failure_cleans_up_witness:
  "stat (dir missing_world) (js ''3f9a'') = Inl ENOENT
   \<and> (\<exists>w'. onUploadFinish_timer default_config (named_upload ''report.pdf'') missing_world
               = Inr w'
         \<and> map_of (dir w') (js ''3f9a'') = None
         \<and> map_of (dir w') (js ''3f9a.json'') = None)
   \<and> stat (dir squatted_world) (js ''3f9a'') = Inr (File 1000 2048)
   \<and> rename (dir squatted_world) (js ''3f9a'') (js ''report--3f9a.pdf'') = Inl EISDIR
   \<and> (\<exists>w'. onUploadFinish_timer default_config (named_upload ''report.pdf'') squatted_world
               = Inr w'
         \<and> map_of (dir w') (js ''3f9a'') = None
         \<and> map_of (dir w') (js ''3f9a.json'') = None
         \<and> map_of (dir w') (js ''report--3f9a.pdf'') = Some (Directory False))"
proof -
  have n: "newFileName (named_upload ''report.pdf'') = js ''report--3f9a.pdf''"
    and i: "upload_id (named_upload ''report.pdf'') = js ''3f9a''"
    by code_simp+
  have j: "js ''3f9a'' @ js ''.json'' = js ''3f9a.json''" by (simp add: js_def)
  have s1: "stat (dir missing_world) (js ''3f9a'') = Inl ENOENT"
    and s2: "stat (dir squatted_world) (js ''3f9a'') = Inr (File 1000 2048)"
    and r2: "rename (dir squatted_world) (js ''3f9a'') (js ''report--3f9a.pdf'') = Inl EISDIR"
    by code_simp+
  have nd: "\<not> is_directory (dir missing_world) (js ''3f9a'')"
    "\<not> is_directory (dir missing_world) (js ''3f9a.json'')"
    "\<not> is_directory (dir squatted_world) (js ''3f9a'')"
    "\<not> is_directory (dir squatted_world) (js ''3f9a.json'')"
    by code_simp+
  have keep: "map_of (dir squatted_world) (js ''report--3f9a.pdf'') = Some (Directory False)"
    "js ''report--3f9a.pdf'' \<noteq> js ''3f9a''" "js ''report--3f9a.pdf'' \<noteq> js ''3f9a.json''"
    by code_simp+
  from finalize_failure_cleans_up [of missing_world "named_upload ''report.pdf''" default_config]
  have a: "\<exists>w'. onUploadFinish_timer default_config (named_upload ''report.pdf'') missing_world
               = Inr w'
         \<and> map_of (dir w') (js ''3f9a'') = None
         \<and> map_of (dir w') (js ''3f9a.json'') = None"
    unfolding n i j using s1 nd by auto
  from finalize_failure_cleans_up [of squatted_world "named_upload ''report.pdf''" default_config]
  have b: "\<exists>w'. onUploadFinish_timer default_config (named_upload ''report.pdf'') squatted_world
               = Inr w'
         \<and> map_of (dir w') (js ''3f9a'') = None
         \<and> map_of (dir w') (js ''3f9a.json'') = None
         \<and> map_of (dir w') (js ''report--3f9a.pdf'') = Some (Directory False)"
    unfolding n i j using r2 nd keep by auto
  from s1 a s2 r2 b show ?thesis by blast
qed

lemma unnamed_file_parts:
  "extname (js ''unnamed_file'') = []"
  "basename (js ''unnamed_file'') [] = js ''unnamed_file''"
  by code_simp+

lemma newFileName_unnamed:
  assumes "metaData_filename u = None"
  shows "newFileName u = js ''unnamed_file--'' @ upload_id u"
proof -
  have "fileName u = js ''unnamed_file''" using assms by (simp add: fileName_def)
  then have "newFileName u = js ''unnamed_file'' @ js ''--'' @ upload_id u"
    by (simp add: newFileName_def unnamed_file_parts)
  then show ?thesis by (simp add: js_def)
qed

lemma ascii_not_surrogate: "a < 0x80 \<Longrightarrow> \<not> surrogate_pair a b"
  for a b :: jschar
  by (simp add: surrogate_pair_def word_less_nat_alt word_le_nat_alt)

lemma utf8_length_ascii: "list_all (\<lambda>c. c < 0x80) s \<Longrightarrow> utf8_length s = length s"
  by (induction s rule: utf8_length.induct) (simp_all add: ascii_not_surrogate unit_bytes_def)

lemma hex_digit_ascii: "hex_digit c \<Longrightarrow> c < 0x80 \<and> c \<noteq> 0"
  by (auto simp: hex_digit_def word_less_nat_alt word_le_nat_alt)

lemma unnamed_prefix:
  "list_all (\<lambda>c. c < 0x80) (js ''unnamed_file--'')" "0 \<notin> set (js ''unnamed_file--'')"
  "length (js ''unnamed_file--'') = 14"
  by (simp_all add: js_def)

lemma tus_id_unnamed_valid:
  assumes "tus_id i"
  shows "valid_name (js ''unnamed_file--'' @ i)"
proof -
  from assms have len: "length i = 32" and hex: "list_all hex_digit i"
    by (simp_all add: tus_id_def)
  from hex have asc: "list_all (\<lambda>c. c < 0x80) i" and nz: "0 \<notin> set i"
    using hex_digit_ascii by (auto simp: list_all_iff)
  have "list_all (\<lambda>c. c < 0x80) (js ''unnamed_file--'' @ i)"
    using asc unnamed_prefix(1) by simp
  then have "utf8_length (js ''unnamed_file--'' @ i) = 46"
    using len unnamed_prefix(3) by (simp add: utf8_length_ascii)
  moreover have "0 \<notin> set (js ''unnamed_file--'' @ i)"
    using nz unnamed_prefix(2) by simp
  ultimately show ?thesis by (simp add: valid_name_def name_error_def NAME_MAX_def)
qed

text \<open>
  C10. When the metadata of a completed upload has no filename entry, the public name
  is exactly \<open>unnamed_file--\<close> followed by the identifier, with nothing after it; the
  callback renames the partial file to that name (when no directory stands under it).
  The file system accepts that name for every identifier of the tus library: it has
  46 bytes.
\<close>

theorem finalize_unnamed_upload:
  assumes "metaData_filename u = None"
  shows "newFileName u = js ''unnamed_file--'' @ upload_id u
     \<and> (tus_id (upload_id u) \<longrightarrow> valid_name (js ''unnamed_file--'' @ upload_id u))
     \<and> (map_of (dir w) (upload_id u) = Some (File m s)
          \<longrightarrow> \<not> is_directory (dir w) (js ''unnamed_file--'' @ upload_id u)
          \<longrightarrow> valid_name (js ''unnamed_file--'' @ upload_id u)
          \<longrightarrow> (\<exists>w'. onUploadFinish_timer cfg u w = Inr w'
                 \<and> map_of (dir w') (js ''unnamed_file--'' @ upload_id u) = Some (File m s)
                 \<and> map_of (dir w') (upload_id u) = None))"
proof (intro conjI impI)
  show n: "newFileName u = js ''unnamed_file--'' @ upload_id u"
    using assms by (rule newFileName_unnamed)
  show "valid_name (js ''unnamed_file--'' @ upload_id u)" if "tus_id (upload_id u)"
    using that by (rule tus_id_unnamed_valid)
  assume a: "map_of (dir w) (upload_id u) = Some (File m s)"
     and "\<not> is_directory (dir w) (js ''unnamed_file--'' @ upload_id u)"
     and "valid_name (js ''unnamed_file--'' @ upload_id u)"
  then have b: "\<not> is_directory (dir w) (newFileName u)"
    and c: "valid_name (newFileName u)" by (simp_all add: n)
  from timer_success_effect [OF a b c, of cfg]
  show "\<exists>w'. onUploadFinish_timer cfg u w = Inr w'
          \<and> map_of (dir w') (js ''unnamed_file--'' @ upload_id u) = Some (File m s)
          \<and> map_of (dir w') (upload_id u) = None"
    unfolding n by blast
qed

theorem finalize_unnamed_upload_witness:
  "metaData_filename unnamed_upload = None
   \<and> newFileName unnamed_upload = js ''unnamed_file--3f9a''
   \<and> map_of (dir completed_world) (js ''3f9a'') = Some (File 1000 2048)
   \<and> \<not> is_directory (dir completed_world) (js ''unnamed_file--3f9a'')
   \<and> valid_name (js ''unnamed_file--3f9a'')
   \<and> (\<exists>w'. onUploadFinish_timer default_config unnamed_upload completed_world = Inr w'
         \<and> map_of (dir w') (js ''unnamed_file--3f9a'') = Some (File 1000 2048)
         \<and> map_of (dir w') (js ''3f9a'') = None)
   \<and> metaData_filename tus_upload = None
   \<and> tus_id (upload_id tus_upload)
   \<and> newFileName tus_upload = js ''unnamed_file--9f86d081884c7d659a2feaa0c55ad015''
   \<and> valid_name (js ''unnamed_file--9f86d081884c7d659a2feaa0c55ad015'')"
proof -
  have h: "metaData_filename unnamed_upload = None"
    by (simp add: metaData_filename_def unnamed_upload_def)
  have i: "upload_id unnamed_upload = js ''3f9a''"
    "js ''unnamed_file--'' @ js ''3f9a'' = js ''unnamed_file--3f9a''"
    by (simp_all add: unnamed_upload_def js_def)
  have a: "map_of (dir completed_world) (js ''3f9a'') = Some (File 1000 2048)"
    and b: "\<not> is_directory (dir completed_world) (js ''unnamed_file--3f9a'')"
    by (simp_all add: completed_world_def is_directory_def js_def)
  have v: "valid_name (js ''unnamed_file--3f9a'')" by code_simp
  have ok: "newFileName unnamed_upload = js ''unnamed_file--3f9a''
     \<and> (\<exists>w'. onUploadFinish_timer default_config unnamed_upload completed_world = Inr w'
         \<and> map_of (dir w') (js ''unnamed_file--3f9a'') = Some (File 1000 2048)
         \<and> map_of (dir w') (js ''3f9a'') = None)"
    using finalize_unnamed_upload [OF h, of completed_world 1000 2048 default_config]
    unfolding i using a b v by blast
  have th: "metaData_filename tus_upload = None"
    by (simp add: metaData_filename_def tus_upload_def)
  have ti: "upload_id tus_upload = js ''9f86d081884c7d659a2feaa0c55ad015''"
    "js ''unnamed_file--'' @ js ''9f86d081884c7d659a2feaa0c55ad015''
       = js ''unnamed_file--9f86d081884c7d659a2feaa0c55ad015''"
    by (simp_all add: tus_upload_def js_def)
  have tt: "tus_id (upload_id tus_upload)" by code_simp
  have tv: "newFileName tus_upload = js ''unnamed_file--9f86d081884c7d659a2feaa0c55ad015''
     \<and> valid_name (js ''unnamed_file--9f86d081884c7d659a2feaa0c55ad015'')"
    using finalize_unnamed_upload [OF th, of completed_world 1000 2048 default_config] tt
    unfolding ti by blast
  from h a b v ok th tt tv show ?thesis by blast
qed

section \<open>The public name is an entry of the upload directory\<close>

lemma set_extname: "set (extname p) \<subseteq> set p"
  by (auto simp: extname_def Let_def string_slice_def dest: in_set_takeD in_set_dropD)

lemma set_basename: "set (basename p sfx) \<subseteq> set p"
  by (auto simp: basename_def Let_def string_slice_def dest: in_set_takeD in_set_dropD)

lemma newFileName_chars:
  "set (newFileName u) \<subseteq> set (fileName u) \<union> set (upload_id u) \<union> {dash}"
proof -
  have "set (js ''--'') = {dash}" by (simp add: js_def dash_def)
  then show ?thesis
    using set_extname [of "fileName u"] set_basename [of "fileName u" "extname (fileName u)"]
    by (auto simp: newFileName_format)
qed

lemma dash_in_newFileName: "dash \<in> set (newFileName u)"
proof -
  have "dash \<in> set (js ''--'')" by (simp add: js_def dash_def)
  then show ?thesis by (simp add: newFileName_format)
qed

text \<open>
  C9. For every input, \<open>sanitizeFilename\<close> returns a string of at most 255 code units
  that contains no \<open>/\<close>, no \<open>\\<close> and no two adjacent dots. Hence the public name of an
  upload has no \<open>/\<close> either (the identifier having none) and is neither \<open>.\<close> nor \<open>..\<close>:
  it names an entry of the upload directory itself.
\<close>

theorem sanitizeFilename_bounded_clean:
  "length (sanitizeFilename f) \<le> 255
   \<and> slash \<notin> set (sanitizeFilename f)
   \<and> backslash \<notin> set (sanitizeFilename f)
   \<and> \<not> sublist (js ''..'') (sanitizeFilename f)
   \<and> (slash \<notin> set (upload_id u)
        \<longrightarrow> slash \<notin> set (newFileName u)
            \<and> newFileName u \<noteq> js ''.'' \<and> newFileName u \<noteq> js ''..'')"
proof -
  have "slash \<notin> set (fileName u)"
    using sanitizeFilename_props [of "metaData_filename u"] by (simp add: fileName_sanitize)
  moreover have "slash \<noteq> dash" by (simp add: slash_def dash_def)
  ultimately have a: "slash \<notin> set (upload_id u) \<longrightarrow> slash \<notin> set (newFileName u)"
    using newFileName_chars [of u] by auto
  have "dash \<notin> set (js ''.'')" "dash \<notin> set (js ''..'')" by (simp_all add: js_def dash_def)
  then have b: "newFileName u \<noteq> js ''.''" "newFileName u \<noteq> js ''..''"
    using dash_in_newFileName [of u] by auto
  from sanitizeFilename_props [of f] a b show ?thesis by simp
qed

theorem sanitizeFilename_bounded_clean_witness:
  "sanitizeFilename (Some (js ''../../etc/passwd'')) = js ''----etc-passwd''
   \<and> length (js ''----etc-passwd'') \<le> 255
   \<and> slash \<notin> set (js ''----etc-passwd'')
   \<and> backslash \<notin> set (js ''----etc-passwd'')
   \<and> \<not> sublist (js ''..'') (js ''----etc-passwd'')
   \<and> slash \<notin> set (upload_id (named_upload ''../../etc/passwd''))
   \<and> newFileName (named_upload ''../../etc/passwd'') = js ''----etc-passwd--3f9a''
   \<and> slash \<notin> set (js ''----etc-passwd--3f9a'')"
proof -
  have e: "sanitizeFilename (Some (js ''../../etc/passwd'')) = js ''----etc-passwd''"
    and n: "newFileName (named_upload ''../../etc/passwd'') = js ''----etc-passwd--3f9a''"
    by code_simp+
  have i: "slash \<notin> set (upload_id (named_upload ''../../etc/passwd''))"
    by (simp add: named_upload_def js_def slash_def)
  from sanitizeFilename_bounded_clean
         [of "Some (js ''../../etc/passwd'')" "named_upload ''../../etc/passwd''"]
  show ?thesis unfolding e n using i by simp
qed

section \<open>Properties of the upload route\<close>

lemma limiter_skip:
  "req_method req \<noteq> js ''POST'' \<Longrightarrow> uploadCreationLimiter increment req store = (Next, store)"
  by (simp add: uploadCreationLimiter_def skip_def)

lemma limiter_run_skips:
  "\<forall>r\<in>set reqs. req_method r \<noteq> js ''POST''
     \<Longrightarrow> limiter_run increment reqs store = (replicate (length reqs) Next, store)"
  by (induction reqs) (simp_all add: limiter_skip)

lemma continuation_methods:
  "js ''PATCH'' \<noteq> js ''POST''" "js ''HEAD'' \<noteq> js ''POST''" "js ''DELETE'' \<noteq> js ''POST''"
  by (simp_all add: js_def)

text \<open>
  C8. The limiter counts and can reject only \<open>POST\<close> requests. A \<open>PATCH\<close>, \<open>HEAD\<close> or
  \<open>DELETE\<close> request passes with the store untouched and reaches the tus handler as if
  there were no limiter, and so does a run of such requests of any length.
\<close>

theorem creation_limiter_applies_to_post_only:
  "(fst (uploadCreationLimiter increment req store) = TooManyRequests
      \<longrightarrow> req_method req = js ''POST'')
   \<and> (snd (uploadCreationLimiter increment req store) \<noteq> store
      \<longrightarrow> req_method req = js ''POST'')
   \<and> (req_method req \<in> {js ''PATCH'', js ''HEAD'', js ''DELETE''}
      \<longrightarrow> uploadCreationLimiter increment req store = (Next, store)
          \<and> uploadApp increment handle cfg req w = tusHandler handle cfg req w)
   \<and> ((\<forall>r\<in>set reqs. req_method r \<in> {js ''PATCH'', js ''HEAD'', js ''DELETE''})
      \<longrightarrow> limiter_run increment reqs store = (replicate (length reqs) Next, store))"
proof (intro conjI impI)
  assume "fst (uploadCreationLimiter increment req store) = TooManyRequests"
  then show "req_method req = js ''POST''"
    using limiter_skip [of req increment store] by (cases "req_method req = js ''POST''") auto
next
  assume "snd (uploadCreationLimiter increment req store) \<noteq> store"
  then show "req_method req = js ''POST''"
    using limiter_skip [of req increment store] by (cases "req_method req = js ''POST''") auto
next
  assume m: "req_method req \<in> {js ''PATCH'', js ''HEAD'', js ''DELETE''}"
  then have np: "req_method req \<noteq> js ''POST''" using continuation_methods by auto
  then show l: "uploadCreationLimiter increment req store = (Next, store)"
    by (rule limiter_skip)
  from np have "uploadCreationLimiter increment req (limiter w) = (Next, limiter w)"
    by (rule limiter_skip)
  then show "uploadApp increment handle cfg req w = tusHandler handle cfg req w"
    by (simp add: uploadApp_def)
next
  assume "\<forall>r\<in>set reqs. req_method r \<in> {js ''PATCH'', js ''HEAD'', js ''DELETE''}"
  then have "\<forall>r\<in>set reqs. req_method r \<noteq> js ''POST''" using continuation_methods by auto
  then show "limiter_run increment reqs store = (replicate (length reqs) Next, store)"
    by (rule limiter_run_skips)
qed

text \<open>
  With a counting store that already holds 50 creations of the client: the next \<open>POST\<close>
  is rejected, while 60 further \<open>PATCH\<close> requests of the same client all pass and
  leave the count at 50.
\<close>

theorem creation_limiter_applies_to_post_only_witness:
  "uploadCreationLimiter count_hits (request_of ''POST'') [(js ''203.0.113.7'', 50)]
     = (TooManyRequests, [(js ''203.0.113.7'', 51)])
   \<and> req_method (request_of ''POST'') = js ''POST''
   \<and> req_method (request_of ''PATCH'') \<in> {js ''PATCH'', js ''HEAD'', js ''DELETE''}
   \<and> uploadCreationLimiter count_hits (request_of ''PATCH'') [(js ''203.0.113.7'', 50)]
       = (Next, [(js ''203.0.113.7'', 50)])
   \<and> uploadApp count_hits creating_handle default_config (request_of ''PATCH'') completed_world
       = tusHandler creating_handle default_config (request_of ''PATCH'') completed_world
   \<and> limiter_run count_hits (replicate 60 (request_of ''PATCH'')) [(js ''203.0.113.7'', 50)]
       = (replicate 60 Next, [(js ''203.0.113.7'', 50)])"
proof -
  have post: "uploadCreationLimiter count_hits (request_of ''POST'') [(js ''203.0.113.7'', 50)]
     = (TooManyRequests, [(js ''203.0.113.7'', 51)])"
    by (simp add: uploadCreationLimiter_def skip_def count_hits_def request_of_def limit_max_def
                  js_def)
  have mp: "req_method (request_of ''POST'') = js ''POST''"
    and m: "req_method (request_of ''PATCH'') \<in> {js ''PATCH'', js ''HEAD'', js ''DELETE''}"
    by (simp_all add: request_of_def)
  then have ms: "\<forall>r\<in>set (replicate 60 (request_of ''PATCH'')).
                   req_method r \<in> {js ''PATCH'', js ''HEAD'', js ''DELETE''}"
    by simp
  note inst = creation_limiter_applies_to_post_only
         [of count_hits "request_of ''PATCH''" "[(js ''203.0.113.7'', 50)]" creating_handle
             default_config completed_world "replicate 60 (request_of ''PATCH'')"]
  from inst m have one: "uploadCreationLimiter count_hits (request_of ''PATCH'')
       [(js ''203.0.113.7'', 50)] = (Next, [(js ''203.0.113.7'', 50)])"
    and app: "uploadApp count_hits creating_handle default_config (request_of ''PATCH'')
       completed_world
       = tusHandler creating_handle default_config (request_of ''PATCH'') completed_world"
    by blast+
  from inst ms have "limiter_run count_hits (replicate 60 (request_of ''PATCH''))
       [(js ''203.0.113.7'', 50)]
       = (replicate (length (replicate 60 (request_of ''PATCH''))) Next,
          [(js ''203.0.113.7'', 50)])"
    by blast
  then have run: "limiter_run count_hits (replicate 60 (request_of ''PATCH''))
       [(js ''203.0.113.7'', 50)] = (replicate 60 Next, [(js ''203.0.113.7'', 50)])"
    by (simp only: length_replicate)
  from post mp m one app run show ?thesis by (intro conjI)
qed

text \<open>
  C1 (what the code does). \<open>checkAvailableSpace\<close> reports \<open>False\<close> when the free space
  is below \<open>minFreeSpace\<close>, but the upload route never calls it: the answer to a request,
  the upload directory it leaves and the log are the same whatever the disk probe would
  report. With 1 GiB free under a floor of 5 GiB, a \<open>POST\<close> that the tus handle accepts
  is answered 201 and its files are created; only the health check looks at the floor.
\<close>

theorem create_ignores_free_space:
  "fst (uploadApp increment handle cfg req (w\<lparr>disk := probe\<rparr>))
     = fst (uploadApp increment handle cfg req w)
   \<and> dir (snd (uploadApp increment handle cfg req (w\<lparr>disk := probe\<rparr>)))
     = dir (snd (uploadApp increment handle cfg req w))
   \<and> logs (snd (uploadApp increment handle cfg req (w\<lparr>disk := probe\<rparr>)))
     = logs (snd (uploadApp increment handle cfg req w))
   \<and> fst (checkAvailableSpace default_config completed_world) = False
   \<and> health default_config completed_world = 503
   \<and> fst (uploadApp count_hits creating_handle default_config (request_of ''POST'')
            (completed_world\<lparr>dir := []\<rparr>)) = 201
   \<and> dir (snd (uploadApp count_hits creating_handle default_config (request_of ''POST'')
            (completed_world\<lparr>dir := []\<rparr>)))
     = [(js ''3f9a'', File 0 0), (js ''3f9a.json'', File 0 120)]"
proof -
  have a: "fst (uploadApp increment handle cfg req (w\<lparr>disk := probe\<rparr>))
     = fst (uploadApp increment handle cfg req w)"
    and b: "dir (snd (uploadApp increment handle cfg req (w\<lparr>disk := probe\<rparr>)))
     = dir (snd (uploadApp increment handle cfg req w))"
    and c: "logs (snd (uploadApp increment handle cfg req (w\<lparr>disk := probe\<rparr>)))
     = logs (snd (uploadApp increment handle cfg req w))"
    by (simp_all add: uploadApp_def tusHandler_def logger_def Let_def
                 split: prod.splits verdict.splits sum.splits option.splits)
  have d: "fst (checkAvailableSpace default_config completed_world) = False"
    by (simp add: checkAvailableSpace_def completed_world_def default_config_def Let_def)
  have h: "health default_config completed_world = 503"
    by (simp add: health_def completed_world_def default_config_def)
  have e: "uploadApp count_hits creating_handle default_config (request_of ''POST'')
            (completed_world\<lparr>dir := []\<rparr>)
     = (201, completed_world\<lparr>dir := [(js ''3f9a'', File 0 0), (js ''3f9a.json'', File 0 120)],
                             limiter := [(js ''203.0.113.7'', 1)]\<rparr>)"
    by (simp add: uploadApp_def tusHandler_def uploadCreationLimiter_def skip_def count_hits_def
                  request_of_def limit_max_def creating_handle_def completed_world_def)
  from a b c d h show ?thesis unfolding e by simp
qed

section \<open>The allowed extensions\<close>

text \<open>
  C3 (what the code does). \<open>config.allowedExtensions\<close> is parsed and logged, and read
  nowhere else: the finalization is the same under every value of it. Under
  \<^verbatim>\<open>ALLOWED_EXTENSIONS=.jpg,.png\<close> the completed upload of \<open>malware.exe\<close> is given its
  public name \<open>malware--3f9a.exe\<close>.
\<close>

theorem allowedExtensions_not_applied:
  "onUploadFinish_timer (cfg\<lparr>allowedExtensions := exts\<rparr>) u w = onUploadFinish_timer cfg u w
   \<and> allowedExtensions restricted_config = Some [js ''.jpg'', js ''.png'']
   \<and> extname (fileName (named_upload ''malware.exe'')) = js ''.exe''
   \<and> onUploadFinish_timer restricted_config (named_upload ''malware.exe'') completed_world
       = Inr (completed_world
               \<lparr>dir := [(js ''malware--3f9a.exe'', File 1000 2048)],
                logs := [UploadSize (File 1000 2048), FileRenamed (js ''malware--3f9a.exe'')]\<rparr>)"
proof -
  have a: "onUploadFinish_timer (cfg\<lparr>allowedExtensions := exts\<rparr>) u w
           = onUploadFinish_timer cfg u w"
    by (simp add: onUploadFinish_timer_def renameUpload_def cleanupUpload_def Let_def
             split: sum.splits prod.splits)
  have b: "allowedExtensions restricted_config = Some [js ''.jpg'', js ''.png'']"
    by code_simp
  have c: "extname (fileName (named_upload ''malware.exe'')) = js ''.exe''"
    by code_simp
  have d: "onUploadFinish_timer restricted_config (named_upload ''malware.exe'') completed_world
       = Inr (completed_world
               \<lparr>dir := [(js ''malware--3f9a.exe'', File 1000 2048)],
                logs := [UploadSize (File 1000 2048), FileRenamed (js ''malware--3f9a.exe'')]\<rparr>)"
    by code_simp
  from a b c d show ?thesis by (intro conjI)
qed

section \<open>Blank names\<close>

text \<open>
  C4 (what the code does). The placeholder is returned for an absent or empty name
  only, before anything is replaced or trimmed. A name of three spaces is trimmed to
  the empty string, which is returned as it is, and the public name of that upload is
  \<open>--3f9a\<close>. A name made of replaced characters only becomes dashes.
\<close>

theorem sanitizeFilename_blank_name:
  "sanitizeFilename None = js ''unnamed_file''
   \<and> sanitizeFilename (Some []) = js ''unnamed_file''
   \<and> sanitizeFilename (Some (js ''   '')) = []
   \<and> newFileName (named_upload ''   '') = js ''--3f9a''
   \<and> sanitizeFilename (Some (js ''/:*?'')) = js ''----''"
proof -
  have a: "sanitizeFilename None = js ''unnamed_file''"
    and b: "sanitizeFilename (Some []) = js ''unnamed_file''"
    by (simp_all add: sanitizeFilename_def)
  have c: "sanitizeFilename (Some (js ''   '')) = []"
    and d: "newFileName (named_upload ''   '') = js ''--3f9a''"
    and e: "sanitizeFilename (Some (js ''/:*?'')) = js ''----''"
    by code_simp+
  from a b c d e show ?thesis by (intro conjI)
qed

section \<open>Properties of the sweep\<close>

lemma sweep_loop_result:
  assumes "distinct (map fst (sdir s))" and "distinct files"
      and "\<forall>f\<in>set files. f \<noteq> js ''.gitkeep''
             \<longrightarrow> (\<exists>n. map_of (sdir s) f = Some n \<and> n \<noteq> Dangling)"
  shows "\<exists>s'. sweep_loop now files s = Inr s'
           \<and> sdir s' = filter (\<lambda>(name, n). \<not> (name \<in> set files \<and> expired now name n))
                          (sdir s)"
  using assms
proof (induction files arbitrary: s)
  case Nil
  then show ?case by simp
next
  case (Cons fl fls)
  let ?d = "sdir s"
  have dfiles: "distinct fls" and notin: "fl \<notin> set fls" using Cons.prems(2) by auto
  have rest: "\<forall>f\<in>set fls. f \<noteq> js ''.gitkeep''
                \<longrightarrow> (\<exists>n. map_of ?d f = Some n \<and> n \<noteq> Dangling)"
    using Cons.prems(3) by auto
  show ?case
  proof (cases "fl = js ''.gitkeep''")
    case True
    from Cons.IH [OF Cons.prems(1) dfiles rest] obtain s' where
      s': "sweep_loop now fls s = Inr s'"
      "sdir s' = filter (\<lambda>(name, n). \<not> (name \<in> set fls \<and> expired now name n)) ?d"
      by blast
    have "filter (\<lambda>(name, n). \<not> (name \<in> set fls \<and> expired now name n)) ?d
        = filter (\<lambda>(name, n). \<not> (name \<in> set (fl # fls) \<and> expired now name n)) ?d"
      using True by (intro filter_cong) (auto simp: expired_def)
    with s' True show ?thesis by simp
  next
    case False
    with Cons.prems(3) obtain n where n: "map_of ?d fl = Some n" "n \<noteq> Dangling" by auto
    have st: "stat ?d fl = Inr n" using n by (simp add: stat_ok_iff)
    have uniq: "\<And>n'. (fl, n') \<in> set ?d \<Longrightarrow> n' = n"
      using Cons.prems(1) n by fastforce
    show ?thesis
    proof (cases "expired now fl n")
      case True
      then obtain mt sz where f: "n = File mt sz" "now - mt > MAX_AGE_MS"
        by (auto simp: expired_def split: node.splits)
      have ul: "unlink ?d fl = Inr (AList.delete fl ?d)"
        using n f by (simp add: unlink_def)
      let ?s2 = "s\<lparr>sdir := AList.delete fl ?d, deletedCount := deletedCount s + 1,
                    freedSpace := freedSpace s + sz\<rparr>"
      have d2: "distinct (map fst (sdir ?s2))"
        using Cons.prems(1) by (simp add: distinct_delete)
      have rest2: "\<forall>f\<in>set fls. f \<noteq> js ''.gitkeep''
                     \<longrightarrow> (\<exists>n. map_of (sdir ?s2) f = Some n \<and> n \<noteq> Dangling)"
        using rest notin by (auto simp: AList.delete_conv)
      from Cons.IH [OF d2 dfiles rest2] obtain s' where
        s': "sweep_loop now fls ?s2 = Inr s'"
        "sdir s' = filter (\<lambda>(name, n). \<not> (name \<in> set fls \<and> expired now name n))
                     (sdir ?s2)"
        by blast
      have step: "sweep_loop now (fl # fls) s = sweep_loop now fls ?s2"
        using False st f ul by (simp add: Let_def)
      have "filter (\<lambda>(name, n). \<not> (name \<in> set fls \<and> expired now name n))
              (AList.delete fl ?d)
          = filter (\<lambda>(name, n). \<not> (name \<in> set (fl # fls) \<and> expired now name n)) ?d"
        unfolding AList.delete_eq filter_filter
        using True uniq by (intro filter_cong) auto
      with s' step show ?thesis by simp
    next
      case nexp: False
      from Cons.IH [OF Cons.prems(1) dfiles rest] obtain s' where
        s': "sweep_loop now fls s = Inr s'"
        "sdir s' = filter (\<lambda>(name, n). \<not> (name \<in> set fls \<and> expired now name n)) ?d"
        by blast
      have step: "sweep_loop now (fl # fls) s = sweep_loop now fls s"
        using False st nexp n(2) by (cases n) (auto simp: Let_def expired_def)
      have "filter (\<lambda>(name, n). \<not> (name \<in> set fls \<and> expired now name n)) ?d
          = filter (\<lambda>(name, n). \<not> (name \<in> set (fl # fls) \<and> expired now name n)) ?d"
        using nexp uniq by (intro filter_cong) auto
      with s' step show ?thesis by simp
    qed
  qed
qed

lemma cleanupOldFiles_result:
  assumes "distinct (map fst d)"
      and "\<forall>(name, n) \<in> set d. name \<noteq> js ''.gitkeep'' \<longrightarrow> n \<noteq> Dangling"
  shows "\<exists>c f. cleanupOldFiles now (Some d) =
           (Finished, Some (filter (\<lambda>(name, n). \<not> expired now name n) d), c, f)"
proof -
  let ?s = "\<lparr>sdir = d, deletedCount = 0, freedSpace = 0\<rparr>"
  have a: "distinct (map fst (sdir ?s))" using assms(1) by simp
  have b: "\<forall>f\<in>set (map fst d). f \<noteq> js ''.gitkeep''
             \<longrightarrow> (\<exists>n. map_of (sdir ?s) f = Some n \<and> n \<noteq> Dangling)"
    using assms by fastforce
  from sweep_loop_result [OF a assms(1) b, of now] obtain s' where
    s': "sweep_loop now (map fst d) ?s = Inr s'"
    "sdir s' = filter (\<lambda>(name, n). \<not> (name \<in> set (map fst d) \<and> expired now name n)) d"
    by auto
  have "filter (\<lambda>(name, n). \<not> (name \<in> set (map fst d) \<and> expired now name n)) d
      = filter (\<lambda>(name, n). \<not> expired now name n) d"
    by (intro filter_cong) force+
  with s' show ?thesis by (simp add: cleanupOldFiles_def)
qed

lemma map_of_filter_distinct:
  "distinct (map fst d) \<Longrightarrow> (k, v) \<in> set d
     \<Longrightarrow> map_of (filter P d) k = (if P (k, v) then Some v else None)"
proof (induction d)
  case Nil
  then show ?case by simp
next
  case (Cons a d)
  show ?case
  proof (cases "a = (k, v)")
    case True
    have "k \<notin> fst ` set d" using Cons.prems(1) True by auto
    then have "map_of (filter P d) k = None"
      by (auto simp: map_of_eq_None_iff)
    with True show ?thesis by simp
  next
    case False
    with Cons.prems have in_d: "(k, v) \<in> set d" and dd: "distinct (map fst d)" by auto
    from in_d have "k \<in> fst ` set d" by force
    then have "fst a \<noteq> k" using Cons.prems(1) by auto
    with Cons.IH [OF dd in_d] show ?thesis by (cases a) auto
  qed
qed

text \<open>
  A counterexample to C2 as stated: the completed upload \<open>3f9a\<close> is finalized to
  \<open>report--3f9a.pdf\<close>, which keeps the modification time 1000 of the partial file; a
  sweep one millisecond after its 30 days have passed deletes the finalized file.
\<close>

theorem sweep_deletes_finalized_upload:
  "\<exists>w'. onUploadFinish_timer default_config (named_upload ''report.pdf'') completed_world = Inr w'
     \<and> dir w' = [(js ''report--3f9a.pdf'', File 1000 2048)]
     \<and> fst (cleanupOldFiles (1000 + MAX_AGE_MS + 1) (Some (dir w'))) = Finished
     \<and> fst (snd (cleanupOldFiles (1000 + MAX_AGE_MS + 1) (Some (dir w')))) = Some []"
proof -
  let ?w = "completed_world
               \<lparr>dir := [(js ''report--3f9a.pdf'', File 1000 2048)],
                logs := [UploadSize (File 1000 2048), FileRenamed (js ''report--3f9a.pdf'')]\<rparr>"
  have a: "onUploadFinish_timer default_config (named_upload ''report.pdf'') completed_world
       = Inr ?w"
    by code_simp
  have d: "dir ?w = [(js ''report--3f9a.pdf'', File 1000 2048)]" by simp
  have b: "cleanupOldFiles (1000 + MAX_AGE_MS + 1)
             (Some [(js ''report--3f9a.pdf'', File 1000 2048)])
       = (Finished, Some [], 1, 2048)"
    by code_simp
  have "onUploadFinish_timer default_config (named_upload ''report.pdf'') completed_world = Inr ?w
     \<and> dir ?w = [(js ''report--3f9a.pdf'', File 1000 2048)]
     \<and> fst (cleanupOldFiles (1000 + MAX_AGE_MS + 1) (Some (dir ?w))) = Finished
     \<and> fst (snd (cleanupOldFiles (1000 + MAX_AGE_MS + 1) (Some (dir ?w)))) = Some []"
    unfolding d b using a by simp
  then show ?thesis by (rule exI [of _ ?w])
qed

text \<open>
  C2, amended. When the names of the upload directory are distinct and every entry
  other than \<open>.gitkeep\<close> can be \<open>stat\<close>ed, the sweep finishes, and it deletes an entry
  if and only if the entry is not \<open>.gitkeep\<close>, is a regular file, and was last modified
  more than 30 days before \<open>now\<close>; every other entry stays as it was. Whether the file is
  a partial or a finalized upload plays no part.
\<close>

theorem sweep_deletes_exactly_old_files:
  assumes "distinct (map fst d)"
      and "\<forall>(name, n) \<in> set d. name \<noteq> js ''.gitkeep'' \<longrightarrow> n \<noteq> Dangling"
  shows "\<exists>d' c f. cleanupOldFiles now (Some d) = (Finished, Some d', c, f)
           \<and> d' = filter (\<lambda>(name, n). \<not> expired now name n) d
           \<and> (\<forall>(name, n) \<in> set d.
                 map_of d' name = (if expired now name n then None else Some n))"
proof -
  from cleanupOldFiles_result [OF assms, of now] obtain c f where
    r: "cleanupOldFiles now (Some d) =
          (Finished, Some (filter (\<lambda>(name, n). \<not> expired now name n) d), c, f)" by blast
  have "\<forall>(name, n) \<in> set d.
          map_of (filter (\<lambda>(name, n). \<not> expired now name n) d) name
            = (if expired now name n then None else Some n)"
    using map_of_filter_distinct [OF assms(1)] by auto
  with r show ?thesis by blast
qed

theorem sweep_deletes_exactly_old_files_witness:
  "distinct (map fst old_directory)
   \<and> Dangling \<notin> snd ` set old_directory
   \<and> expired (MAX_AGE_MS + 2000) (js ''report--3f9a.pdf'') (File 1000 2048)
   \<and> (\<exists>c f. cleanupOldFiles (MAX_AGE_MS + 2000) (Some old_directory)
         = (Finished,
            Some [(js ''.gitkeep'', File 0 0), (js ''notes--51c2.txt'', File 5000 64),
                  (js ''archive'', Directory False)],
            c, f))"
proof -
  have a: "distinct (map fst old_directory)"
    and b: "Dangling \<notin> snd ` set old_directory"
    and e: "expired (MAX_AGE_MS + 2000) (js ''report--3f9a.pdf'') (File 1000 2048)"
    by code_simp+
  from b have b': "\<forall>(name, n) \<in> set old_directory. name \<noteq> js ''.gitkeep'' \<longrightarrow> n \<noteq> Dangling"
    by force
  have f: "filter (\<lambda>(name, n). \<not> expired (MAX_AGE_MS + 2000) name n) old_directory
      = [(js ''.gitkeep'', File 0 0), (js ''notes--51c2.txt'', File 5000 64),
         (js ''archive'', Directory False)]"
    by code_simp
  from sweep_deletes_exactly_old_files [OF a b', of "MAX_AGE_MS + 2000"]
  have "\<exists>c f. cleanupOldFiles (MAX_AGE_MS + 2000) (Some old_directory)
         = (Finished,
            Some [(js ''.gitkeep'', File 0 0), (js ''notes--51c2.txt'', File 5000 64),
                  (js ''archive'', Directory False)],
            c, f)"
    unfolding f by blast
  with a b e show ?thesis by blast
qed

end
